theory Spec2Isabelle
  imports Main
begin

section \<open>JavaScript values and the User model\<close>

text \<open>
  The values an attribute of a \<open>User\<close>, a field of a provider profile or an entry of a
  request body can hold. \<open>JDate\<close> is a \<open>Date\<close> object, kept as its epoch milliseconds.
  Arrays and plain objects are left out: no column of the model holds one.
\<close>

datatype jsval =
    JUndefined
  | JNull
  | JBool bool
  | JNumber int
  | JString string
  | JDate int

text \<open>JavaScript's \<open>!v\<close>.\<close>

fun falsy :: "jsval \<Rightarrow> bool" where
  "falsy JUndefined = True"
| "falsy JNull = True"
| "falsy (JBool b) = (\<not> b)"
| "falsy (JNumber n) = (n = 0)"
| "falsy (JString s) = (s = [])"
| "falsy (JDate t) = False"

text \<open>
  lodash's \<open>_.isEmpty\<close>: a string is empty when its length is 0; \<open>undefined\<close>, \<open>null\<close>,
  booleans, numbers and dates (objects with no own enumerable key) are all empty.
\<close>

fun isEmpty :: "jsval \<Rightarrow> bool" where
  "isEmpty (JString s) = (s = [])"
| "isEmpty v = True"

record user =
  user_id :: jsval
  first_name :: jsval
  last_name :: jsval
  email :: jsval
  image_url :: jsval
  google_id :: jsval
  facebook_id :: jsval
  registration_date :: jsval

datatype error =
    ApiError string string
  | NotFoundError
  | TypeError
  | External string

text \<open>An object literal or request body: a finite map from keys to values.\<close>

type_synonym attrs = "string \<rightharpoonup> jsval"

text \<open>Reading the attribute named \<open>k\<close> of a model; a key that is no column reads \<open>undefined\<close>.\<close>

definition get_attr :: "string \<Rightarrow> user \<Rightarrow> jsval" where
  "get_attr k u =
     (if k = ''id'' then user_id u
      else if k = ''first_name'' then first_name u
      else if k = ''last_name'' then last_name u
      else if k = ''email'' then email u
      else if k = ''image_url'' then image_url u
      else if k = ''google_id'' then google_id u
      else if k = ''facebook_id'' then facebook_id u
      else if k = ''registration_date'' then registration_date u
      else JUndefined)"

definition assign :: "jsval option \<Rightarrow> jsval \<Rightarrow> jsval" where
  "assign nv old = (case nv of None \<Rightarrow> old | Some v \<Rightarrow> v)"

text \<open>
  Modelled from the spec: the model class \<open>User\<close> lives in \<open>models\<close>, outside the
  service file. \<open>user.set(attrs)\<close> assigns every attribute that \<open>attrs\<close> holds and leaves
  the others as they are; a key that names no column of the Account (section 3) has no
  attribute to land in.
\<close>

definition user_set :: "attrs \<Rightarrow> user \<Rightarrow> user" where
  "user_set a u =
     \<lparr> user_id = assign (a ''id'') (user_id u),
       first_name = assign (a ''first_name'') (first_name u),
       last_name = assign (a ''last_name'') (last_name u),
       email = assign (a ''email'') (email u),
       image_url = assign (a ''image_url'') (image_url u),
       google_id = assign (a ''google_id'') (google_id u),
       facebook_id = assign (a ''facebook_id'') (facebook_id u),
       registration_date = assign (a ''registration_date'') (registration_date u) \<rparr>"

text \<open>\<open>new User(attrs)\<close>: a model with no attribute but the ones given.\<close>

definition blank_user :: user where
  "blank_user =
     \<lparr> user_id = JUndefined, first_name = JUndefined, last_name = JUndefined,
       email = JUndefined, image_url = JUndefined, google_id = JUndefined,
       facebook_id = JUndefined, registration_date = JUndefined \<rparr>"

definition new_User :: "attrs \<Rightarrow> user" where
  "new_User a = user_set a blank_user"


section \<open>The storage layer\<close>

text \<open>
  What a call of the service does to its collaborators, in order: the storage reads and
  writes and the two steps of the avatar pipeline.
\<close>

datatype event =
    Find string jsval
  | Get jsval
  | Save user
  | Download jsval
  | Upload user string

record world =
  rows :: "user list"
  trace :: "event list"

definition emit :: "event \<Rightarrow> world \<Rightarrow> world" where
  "emit e w = w\<lparr>trace := trace w @ [e]\<rparr>"

text \<open>
  Modelled from the spec: \<open>queries.find(User, filter, {require: false})\<close> of
  \<open>utils/queries\<close> (section 6): the first stored Account whose attribute equals the
  filter's value, or \<open>null\<close> when no row matches; absence is no error.
\<close>

definition queries_find :: "string \<Rightarrow> jsval \<Rightarrow> world \<Rightarrow> user option \<times> world" where
  "queries_find k v w = (find (\<lambda>r. get_attr k r = v) (rows w), emit (Find k v) w)"

text \<open>
  Modelled from the spec: \<open>queries.get(User, id)\<close> of \<open>utils/queries\<close> (sections 6 and
  7): the stored Account with that id; a required lookup that finds none is an error.
\<close>

definition queries_get :: "jsval \<Rightarrow> world \<Rightarrow> (error + user) \<times> world" where
  "queries_get i w =
     (case find (\<lambda>r. user_id r = i) (rows w) of
        None \<Rightarrow> (Inl NotFoundError, emit (Get i) w)
      | Some u \<Rightarrow> (Inr u, emit (Get i) w))"

fun id_num :: "jsval \<Rightarrow> int" where
  "id_num (JNumber n) = n"
| "id_num v = 0"

text \<open>
  Modelled from the spec: the id of an Account is an opaque unique identifier assigned
  at creation (section 3). The storage hands out one more than the largest id in use.
\<close>

definition fresh_id :: "user list \<Rightarrow> int" where
  "fresh_id rs = 1 + foldr max (map (\<lambda>r. id_num (user_id r)) rs) 0"

definition isNew :: "user \<Rightarrow> bool" where
  "isNew u = (user_id u = JUndefined \<or> user_id u = JNull)"

text \<open>
  Modelled from the spec: \<open>user.save()\<close> of the model class (\<open>save(Entity) -> Entity\<close>,
  section 6). A model that has no id yet is inserted under a fresh id; a model that has
  one overwrites the stored row of that id. The saved model is returned.
\<close>

definition user_save :: "user \<Rightarrow> world \<Rightarrow> (error + user) \<times> world" where
  "user_save u w =
     (if isNew u then
        (let u' = u\<lparr>user_id := JNumber (fresh_id (rows w))\<rparr>
         in (Inr u', emit (Save u') (w\<lparr>rows := rows w @ [u']\<rparr>)))
      else
        (Inr u, emit (Save u)
           (w\<lparr>rows := map (\<lambda>r. if user_id r = user_id u then u else r) (rows w)\<rparr>)))"


section \<open>The account edit service\<close>

definition ALLOWED_ATTRS_TO_UPDATE :: "string list" where
  "ALLOWED_ATTRS_TO_UPDATE = [''first_name'', ''last_name'', ''email'']"

text \<open>lodash's \<open>_.pick(data, keys)\<close>: the entries of \<open>data\<close> whose key is listed.\<close>

definition pick :: "attrs \<Rightarrow> string list \<Rightarrow> attrs" where
  "pick d ks = (\<lambda>k. if k \<in> set ks then d k else None)"

text \<open>The test \<open>!v || _.isEmpty(v)\<close> that \<open>validateUser\<close> applies to each required field.\<close>

definition missing :: "jsval \<Rightarrow> bool" where
  "missing v = (falsy v \<or> isEmpty v)"

definition validateUser :: "user \<Rightarrow> error + unit" where
  "validateUser u =
     (if missing (first_name u) then Inl (ApiError ''first_name_required'' ''First name required'')
      else if missing (last_name u) then Inl (ApiError ''last_name_required'' ''Last name required'')
      else if missing (email u) then Inl (ApiError ''email_required'' ''Email required'')
      else Inr ())"

definition getUser :: "jsval \<Rightarrow> world \<Rightarrow> (error + user) \<times> world" where
  "getUser i w = queries_get i w"

definition updateUser :: "user \<Rightarrow> attrs \<Rightarrow> world \<Rightarrow> (error + user) \<times> world" where
  "updateUser usr d w =
     (let a = pick d ALLOWED_ATTRS_TO_UPDATE in
      case queries_get (user_id usr) w of
        (Inl e, w1) \<Rightarrow> (Inl e, w1)
      | (Inr loadedUser, w1) \<Rightarrow>
          (let loadedUser' = user_set a loadedUser in
           case validateUser loadedUser' of
             Inl e \<Rightarrow> (Inl e, w1)
           | Inr _ \<Rightarrow> user_save loadedUser' w1))"


section \<open>Providers and the avatar pipeline\<close>

text \<open>
  The body of Google's \<open>userinfo.get\<close> response (\<open>profile.data\<close>) and of Facebook's
  \<open>me\<close> response. Facebook nests the avatar under \<open>picture.data.url\<close>: \<open>fb_picture\<close> is
  \<open>None\<close> when \<open>picture\<close> or \<open>picture.data\<close> is not there, and reading the URL then
  raises a \<open>TypeError\<close>.
\<close>

record google_profile =
  g_id :: jsval
  g_email :: jsval
  g_given_name :: jsval
  g_family_name :: jsval
  g_picture :: jsval

record facebook_profile =
  fb_id :: jsval
  fb_email :: jsval
  fb_first_name :: jsval
  fb_last_name :: jsval
  fb_picture :: "jsval option"

text \<open>
  The collaborators the service calls and does not define (\<open>apis/google\<close>,
  \<open>apis/facebook\<close>, \<open>utils/files\<close>, the clock), taken as parameters. Each either
  returns or raises.
\<close>

record env =
  getOauth2 :: "string \<Rightarrow> error + string"
  userinfo_get :: "string \<Rightarrow> error + google_profile"
  facebook_api :: "string \<Rightarrow> error + facebook_profile"
  downloadFileFromUrl :: "jsval \<Rightarrow> error + string"
  uploadUserImage :: "user \<Rightarrow> string \<Rightarrow> error + string"
  now :: int

definition files_download :: "env \<Rightarrow> jsval \<Rightarrow> world \<Rightarrow> (error + string) \<times> world" where
  "files_download en url w = (downloadFileFromUrl en url, emit (Download url) w)"

definition files_upload :: "env \<Rightarrow> user \<Rightarrow> string \<Rightarrow> world \<Rightarrow> (error + string) \<times> world" where
  "files_upload en u path w = (uploadUserImage en u path, emit (Upload u path) w)"

definition updateUserImage :: "env \<Rightarrow> user \<Rightarrow> string \<Rightarrow> world \<Rightarrow> (error + user) \<times> world" where
  "updateUserImage en usr imagePath w =
     (case queries_get (user_id usr) w of
        (Inl e, w1) \<Rightarrow> (Inl e, w1)
      | (Inr loadedUser, w1) \<Rightarrow>
          (case files_upload en loadedUser imagePath w1 of
             (Inl e, w2) \<Rightarrow> (Inl e, w2)
           | (Inr imageUrl, w2) \<Rightarrow> user_save (loadedUser\<lparr>image_url := JString imageUrl\<rparr>) w2))"


section \<open>Social sign-in\<close>

text \<open>
  Lines 68 to 81 and 107 to 120, from the moment the model is built: download the
  avatar, upload it for the model that is not stored yet, set \<open>image_url\<close>, save.
\<close>

definition create_with_avatar :: "env \<Rightarrow> user \<Rightarrow> jsval \<Rightarrow> world \<Rightarrow> (error + user) \<times> world" where
  "create_with_avatar en usr picture w =
     (case files_download en picture w of
        (Inl e, w1) \<Rightarrow> (Inl e, w1)
      | (Inr imagePath, w1) \<Rightarrow>
          (case files_upload en usr imagePath w1 of
             (Inl e, w2) \<Rightarrow> (Inl e, w2)
           | (Inr imageUrl, w2) \<Rightarrow>
               user_save (user_set [''image_url'' \<mapsto> JString imageUrl] usr) w2))"

definition signInWithGoogle :: "env \<Rightarrow> string \<Rightarrow> world \<Rightarrow> (error + user) \<times> world" where
  "signInWithGoogle en authCode w =
     (case getOauth2 en authCode of
        Inl e \<Rightarrow> (Inl e, w)
      | Inr oauth2 \<Rightarrow>
     (case userinfo_get en oauth2 of
        Inl e \<Rightarrow> (Inl e, w)
      | Inr profile \<Rightarrow>
     (case queries_find ''email'' (g_email profile) w of
        (Some usr, w1) \<Rightarrow> user_save (user_set [''google_id'' \<mapsto> g_id profile] usr) w1
      | (None, w1) \<Rightarrow>
     (case queries_find ''google_id'' (g_id profile) w1 of
        (Some usr, w2) \<Rightarrow> (Inr usr, w2)
      | (None, w2) \<Rightarrow>
          create_with_avatar en
            (new_User [''first_name'' \<mapsto> g_given_name profile,
                       ''last_name'' \<mapsto> g_family_name profile,
                       ''email'' \<mapsto> g_email profile,
                       ''google_id'' \<mapsto> g_id profile,
                       ''registration_date'' \<mapsto> JDate (now en)])
            (g_picture profile) w2))))"

definition signInWithFacebook :: "env \<Rightarrow> string \<Rightarrow> world \<Rightarrow> (error + user) \<times> world" where
  "signInWithFacebook en accessToken w =
     (case facebook_api en accessToken of
        Inl e \<Rightarrow> (Inl e, w)
      | Inr profile \<Rightarrow>
     (case queries_find ''email'' (fb_email profile) w of
        (Some usr, w1) \<Rightarrow> user_save (user_set [''facebook_id'' \<mapsto> fb_id profile] usr) w1
      | (None, w1) \<Rightarrow>
     (case queries_find ''facebook_id'' (fb_id profile) w1 of
        (Some usr, w2) \<Rightarrow> (Inr usr, w2)
      | (None, w2) \<Rightarrow>
          (let usr = new_User [''first_name'' \<mapsto> fb_first_name profile,
                               ''last_name'' \<mapsto> fb_last_name profile,
                               ''email'' \<mapsto> fb_email profile,
                               ''facebook_id'' \<mapsto> fb_id profile,
                               ''registration_date'' \<mapsto> JDate (now en)]
           in case fb_picture profile of
                None \<Rightarrow> (Inl TypeError, w2)
              | Some url \<Rightarrow> create_with_avatar en usr url w2))))"


section \<open>The reconciliation algorithm, as the specification words it\<close>

datatype match = FoundByEmail user | FoundByExternalId user | NotFound

text \<open>
  Section 4.2: look an Account up by email; failing that, by the provider's external-id
  column \<open>col\<close>; failing that, there is none.
\<close>

definition resolve :: "string \<Rightarrow> jsval \<Rightarrow> jsval \<Rightarrow> user list \<Rightarrow> match" where
  "resolve col em ext rs =
     (case find (\<lambda>a. email a = em) rs of
        Some a \<Rightarrow> FoundByEmail a
      | None \<Rightarrow>
          (case find (\<lambda>a. get_attr col a = ext) rs of
             Some b \<Rightarrow> FoundByExternalId b
           | None \<Rightarrow> NotFound))"

text \<open>
  Section 4.4, step 3: the Account record built from a profile at time \<open>t\<close>, before its
  avatar is ingested and before it is stored: the required fields, the external id of
  the originating provider and the registration date.
\<close>

definition google_account :: "int \<Rightarrow> google_profile \<Rightarrow> user" where
  "google_account t p =
     \<lparr> user_id = JUndefined, first_name = g_given_name p, last_name = g_family_name p,
       email = g_email p, image_url = JUndefined, google_id = g_id p,
       facebook_id = JUndefined, registration_date = JDate t \<rparr>"

definition facebook_account :: "int \<Rightarrow> facebook_profile \<Rightarrow> user" where
  "facebook_account t q =
     \<lparr> user_id = JUndefined, first_name = fb_first_name q, last_name = fb_last_name q,
       email = fb_email q, image_url = JUndefined, google_id = JUndefined,
       facebook_id = fb_id q, registration_date = JDate t \<rparr>"

text \<open>Every stored row carries the numeric id the storage gave it.\<close>

fun has_id :: "user \<Rightarrow> bool" where
  "has_id u = (case user_id u of JNumber n \<Rightarrow> True | _ \<Rightarrow> False)"

definition stored :: "user list \<Rightarrow> bool" where
  "stored rs = list_all has_id rs"

text \<open>
  The two flows differ in the provider column they read and write. The mirror image of
  an account exchanges its two external ids; the mirror image of a world mirrors every
  row and every event of the trace. Two provider profiles are the same canonical profile
  when their external id, email, names and avatar source agree.
\<close>

definition swap_ids :: "user \<Rightarrow> user" where
  "swap_ids u = u\<lparr>google_id := facebook_id u, facebook_id := google_id u\<rparr>"

definition swap_col :: "string \<Rightarrow> string" where
  "swap_col k = (if k = ''google_id'' then ''facebook_id''
                 else if k = ''facebook_id'' then ''google_id'' else k)"

fun swap_event :: "event \<Rightarrow> event" where
  "swap_event (Find k v) = Find (swap_col k) v"
| "swap_event (Get i) = Get i"
| "swap_event (Save u) = Save (swap_ids u)"
| "swap_event (Download url) = Download url"
| "swap_event (Upload u path) = Upload (swap_ids u) path"

definition swap_world :: "world \<Rightarrow> world" where
  "swap_world w = \<lparr> rows = map swap_ids (rows w), trace = map swap_event (trace w) \<rparr>"



section \<open>Example data\<close>

definition alice :: user where
  "alice = \<lparr> user_id = JNumber 1, first_name = JString ''Alice'', last_name = JString ''Liddell'',
              email = JString ''a@x.com'', image_url = JString ''http://cdn/1.png'',
              google_id = JNull, facebook_id = JNull, registration_date = JDate 1000 \<rparr>"

definition bob :: user where
  "bob = \<lparr> user_id = JNumber 2, first_name = JString ''Bob'', last_name = JString ''Builder'',
            email = JString ''b@x.com'', image_url = JString ''http://cdn/2.png'',
            google_id = JString ''g7'', facebook_id = JNull, registration_date = JDate 2000 \<rparr>"

definition world0 :: world where
  "world0 = \<lparr> rows = [alice, bob], trace = [] \<rparr>"

text \<open>
  Collaborators for the examples: the providers answer with the given profiles, a
  download succeeds for a URL that is a string, an upload returns a fixed URL.
\<close>

definition env_of :: "google_profile \<Rightarrow> facebook_profile \<Rightarrow> env" where
  "env_of gp fp =
     \<lparr> getOauth2 = (\<lambda>c. Inr (''token-'' @ c)),
       userinfo_get = (\<lambda>t. Inr gp),
       facebook_api = (\<lambda>t. Inr fp),
       downloadFileFromUrl =
         (\<lambda>u. case u of JString s \<Rightarrow> Inr ''/tmp/avatar'' | _ \<Rightarrow> Inl (External ''download'')),
       uploadUserImage = (\<lambda>u p. Inr ''http://cdn/new.png''),
       now = 5000 \<rparr>"

definition gp_link :: google_profile where
  "gp_link = \<lparr> g_id = JString ''g1'', g_email = JString ''a@x.com'',
               g_given_name = JString ''Ally'', g_family_name = JString ''L'',
               g_picture = JString ''http://img/a'' \<rparr>"

definition gp_known :: google_profile where
  "gp_known = \<lparr> g_id = JString ''g7'', g_email = JString ''bob@new.com'',
                g_given_name = JString ''Robert'', g_family_name = JString ''B'',
                g_picture = JString ''http://img/b'' \<rparr>"

definition gp_new :: google_profile where
  "gp_new = \<lparr> g_id = JString ''g2'', g_email = JString ''new@x.com'',
              g_given_name = JString ''A'', g_family_name = JString ''B'',
              g_picture = JString ''http://img'' \<rparr>"

definition gp_both :: google_profile where
  "gp_both = \<lparr> g_id = JString ''g7'', g_email = JString ''a@x.com'',
               g_given_name = JString ''Ally'', g_family_name = JString ''L'',
               g_picture = JString ''http://img/a'' \<rparr>"

definition gp_clash :: google_profile where
  "gp_clash = \<lparr> g_id = JString ''g9'', g_email = JString ''b@x.com'',
                g_given_name = JString ''Bob'', g_family_name = JString ''Builder'',
                g_picture = JString ''http://img/b'' \<rparr>"

definition fp_link :: facebook_profile where
  "fp_link = \<lparr> fb_id = JString ''f1'', fb_email = JString ''a@x.com'',
               fb_first_name = JString ''Ally'', fb_last_name = JString ''L'',
               fb_picture = Some (JString ''http://img/a'') \<rparr>"

definition fp_new :: facebook_profile where
  "fp_new = \<lparr> fb_id = JString ''f2'', fb_email = JString ''new@x.com'',
              fb_first_name = JString ''A'', fb_last_name = JString ''B'',
              fb_picture = Some (JString ''http://img'') \<rparr>"

definition fp_known :: facebook_profile where
  "fp_known = \<lparr> fb_id = JString ''f5'', fb_email = JString ''carol@new.com'',
                fb_first_name = JString ''Caroline'', fb_last_name = JString ''C'',
                fb_picture = Some (JString ''http://img/c'') \<rparr>"

definition carol :: user where
  "carol = \<lparr> user_id = JNumber 3, first_name = JString ''Carol'', last_name = JString ''Cole'',
              email = JString ''c@x.com'', image_url = JString ''http://cdn/3.png'',
              google_id = JNull, facebook_id = JString ''f5'', registration_date = JDate 3000 \<rparr>"

definition world_fb :: world where
  "world_fb = \<lparr> rows = [alice, carol], trace = [] \<rparr>"

definition env_upload_fails :: env where
  "env_upload_fails = (env_of gp_new fp_new)\<lparr>uploadUserImage := (\<lambda>u p. Inl (External ''upload''))\<rparr>"

definition fp_nopic :: facebook_profile where
  "fp_nopic = \<lparr> fb_id = JString ''f3'', fb_email = JString ''nopic@x.com'',
                fb_first_name = JString ''N'', fb_last_name = JString ''P'',
                fb_picture = None \<rparr>"

definition newcomer_g :: user where
  "newcomer_g = \<lparr> user_id = JNumber 3, first_name = JString ''A'', last_name = JString ''B'',
                   email = JString ''new@x.com'', image_url = JString ''http://cdn/new.png'',
                   google_id = JString ''g2'', facebook_id = JUndefined,
                   registration_date = JDate 5000 \<rparr>"

definition newcomer_f :: user where
  "newcomer_f = \<lparr> user_id = JNumber 3, first_name = JString ''A'', last_name = JString ''B'',
                   email = JString ''new@x.com'', image_url = JString ''http://cdn/new.png'',
                   google_id = JUndefined, facebook_id = JString ''f2'',
                   registration_date = JDate 5000 \<rparr>"

definition fp_both :: facebook_profile where
  "fp_both = \<lparr> fb_id = JString ''f5'', fb_email = JString ''a@x.com'',
               fb_first_name = JString ''Ally'', fb_last_name = JString ''L'',
               fb_picture = Some (JString ''http://img/a'') \<rparr>"



text \<open>An upload that answers with an empty URL, and a download that raises.\<close>

definition env_empty_url :: env where
  "env_empty_url = (env_of gp_new fp_new)\<lparr>uploadUserImage := (\<lambda>u p. Inr [])\<rparr>"

definition env_download_fails :: env where
  "env_download_fails =
     (env_of gp_new fp_new)\<lparr>downloadFileFromUrl := (\<lambda>u. Inl (External ''download''))\<rparr>"

definition newcomer_blank :: user where
  "newcomer_blank = \<lparr> user_id = JNumber 3, first_name = JString ''A'', last_name = JString ''B'',
                       email = JString ''new@x.com'', image_url = JString [],
                       google_id = JString ''g2'', facebook_id = JUndefined,
                       registration_date = JDate 5000 \<rparr>"

section \<open>Auxiliary facts\<close>

lemma user_set_google: "user_set [''google_id'' \<mapsto> v] u = u\<lparr>google_id := v\<rparr>"
  by (simp add: user_set_def assign_def)

lemma user_set_facebook: "user_set [''facebook_id'' \<mapsto> v] u = u\<lparr>facebook_id := v\<rparr>"
  by (simp add: user_set_def assign_def)

lemma user_set_image: "user_set [''image_url'' \<mapsto> v] u = u\<lparr>image_url := v\<rparr>"
  by (simp add: user_set_def assign_def)

lemma new_User_google:
  "new_User [''first_name'' \<mapsto> fn, ''last_name'' \<mapsto> ln, ''email'' \<mapsto> em,
             ''google_id'' \<mapsto> gid, ''registration_date'' \<mapsto> d]
   = \<lparr> user_id = JUndefined, first_name = fn, last_name = ln, email = em,
       image_url = JUndefined, google_id = gid, facebook_id = JUndefined,
       registration_date = d \<rparr>"
  by (simp add: new_User_def user_set_def assign_def blank_user_def)

lemma new_User_facebook:
  "new_User [''first_name'' \<mapsto> fn, ''last_name'' \<mapsto> ln, ''email'' \<mapsto> em,
             ''facebook_id'' \<mapsto> fid, ''registration_date'' \<mapsto> d]
   = \<lparr> user_id = JUndefined, first_name = fn, last_name = ln, email = em,
       image_url = JUndefined, google_id = JUndefined, facebook_id = fid,
       registration_date = d \<rparr>"
  by (simp add: new_User_def user_set_def assign_def blank_user_def)

lemma foldr_max_ge: "x \<in> set xs \<Longrightarrow> x \<le> foldr max xs (b::int)"
  by (induction xs) auto

lemma fresh_id_fresh: "r \<in> set rs \<Longrightarrow> user_id r \<noteq> JNumber (fresh_id rs)"
proof
  assume r: "r \<in> set rs" and eq: "user_id r = JNumber (fresh_id rs)"
  from r have "id_num (user_id r) \<in> set (map (\<lambda>r. id_num (user_id r)) rs)" by simp
  then have "id_num (user_id r) \<le> foldr max (map (\<lambda>r. id_num (user_id r)) rs) 0"
    by (rule foldr_max_ge)
  with eq show False by (simp add: fresh_id_def)
qed

lemma missing_iff: "missing v \<longleftrightarrow> (\<forall>s. v = JString s \<longrightarrow> s = [])"
  by (cases v) (auto simp: missing_def)

lemma pick_allowed_user_set:
  "user_set (pick d ALLOWED_ATTRS_TO_UPDATE) u =
     u\<lparr> first_name := assign (d ''first_name'') (first_name u),
        last_name := assign (d ''last_name'') (last_name u),
        email := assign (d ''email'') (email u) \<rparr>"
  by (simp add: user_set_def pick_def ALLOWED_ATTRS_TO_UPDATE_def assign_def)

lemma queries_get_found:
  "find (\<lambda>r. user_id r = i) (rows w) = Some u \<Longrightarrow> queries_get i w = (Inr u, emit (Get i) w)"
  by (simp add: queries_get_def)

lemma find_SomeD: "find P xs = Some x \<Longrightarrow> x \<in> set xs \<and> P x"
  by (induction xs) (auto split: if_splits)

lemma stored_not_new: "stored rs \<Longrightarrow> r \<in> set rs \<Longrightarrow> \<not> isNew r"
  by (auto simp: stored_def list_all_iff isNew_def split: jsval.splits)

lemma user_save_existing:
  "\<not> isNew u \<Longrightarrow>
   user_save u w = (Inr u, \<lparr> rows = map (\<lambda>r. if user_id r = user_id u then u else r) (rows w),
                            trace = trace w @ [Save u] \<rparr>)"
  by (simp add: user_save_def emit_def)

lemma user_save_new:
  "isNew u \<Longrightarrow>
   user_save u w = (Inr (u\<lparr>user_id := JNumber (fresh_id (rows w))\<rparr>),
                   \<lparr> rows = rows w @ [u\<lparr>user_id := JNumber (fresh_id (rows w))\<rparr>],
                     trace = trace w @ [Save (u\<lparr>user_id := JNumber (fresh_id (rows w))\<rparr>)] \<rparr>)"
  by (simp add: user_save_def emit_def Let_def)

lemma pick_cong_allowed:
  "d' ''first_name'' = d ''first_name'' \<Longrightarrow> d' ''last_name'' = d ''last_name'' \<Longrightarrow>
   d' ''email'' = d ''email'' \<Longrightarrow>
   pick d' ALLOWED_ATTRS_TO_UPDATE = pick d ALLOWED_ATTRS_TO_UPDATE"
  by (rule ext) (simp add: pick_def ALLOWED_ATTRS_TO_UPDATE_def)

lemma get_attr_email [simp]: "get_attr ''email'' u = email u"
  by (simp add: get_attr_def)

lemma get_attr_google_id [simp]: "get_attr ''google_id'' u = google_id u"
  by (simp add: get_attr_def)

lemma get_attr_facebook_id [simp]: "get_attr ''facebook_id'' u = facebook_id u"
  by (simp add: get_attr_def)

lemma queries_find_email:
  "queries_find ''email'' v w = (find (\<lambda>r. email r = v) (rows w), emit (Find ''email'' v) w)"
  by (simp add: queries_find_def)

lemma queries_find_google_id:
  "queries_find ''google_id'' v w
     = (find (\<lambda>r. google_id r = v) (rows w), emit (Find ''google_id'' v) w)"
  by (simp add: queries_find_def)

lemma queries_find_facebook_id:
  "queries_find ''facebook_id'' v w
     = (find (\<lambda>r. facebook_id r = v) (rows w), emit (Find ''facebook_id'' v) w)"
  by (simp add: queries_find_def)

lemma rows_emit [simp]: "rows (emit e w) = rows w"
  by (simp add: emit_def)

lemma trace_emit [simp]: "trace (emit e w) = trace w @ [e]"
  by (simp add: emit_def)

text \<open>The three branches of \<open>signInWithGoogle\<close>, once the provider has answered.\<close>

lemma google_by_email:
  assumes "getOauth2 en code = Inr tok" and "userinfo_get en tok = Inr p"
    and "find (\<lambda>r. email r = g_email p) (rows w) = Some a"
  shows "signInWithGoogle en code w
       = user_save (a\<lparr>google_id := g_id p\<rparr>) (emit (Find ''email'' (g_email p)) w)"
  using assms by (simp add: signInWithGoogle_def queries_find_email user_set_google)

lemma google_by_id:
  assumes "getOauth2 en code = Inr tok" and "userinfo_get en tok = Inr p"
    and "find (\<lambda>r. email r = g_email p) (rows w) = None"
    and "find (\<lambda>r. google_id r = g_id p) (rows w) = Some b"
  shows "signInWithGoogle en code w
       = (Inr b, emit (Find ''google_id'' (g_id p)) (emit (Find ''email'' (g_email p)) w))"
  using assms
  by (simp add: signInWithGoogle_def queries_find_email queries_find_google_id)

lemma google_create:
  assumes "getOauth2 en code = Inr tok" and "userinfo_get en tok = Inr p"
    and "find (\<lambda>r. email r = g_email p) (rows w) = None"
    and "find (\<lambda>r. google_id r = g_id p) (rows w) = None"
  shows "signInWithGoogle en code w
       = create_with_avatar en (google_account (now en) p) (g_picture p)
           (emit (Find ''google_id'' (g_id p)) (emit (Find ''email'' (g_email p)) w))"
  using assms
  by (simp add: signInWithGoogle_def queries_find_email queries_find_google_id new_User_google
      google_account_def)

text \<open>The branches of \<open>signInWithFacebook\<close>.\<close>

lemma facebook_by_email:
  assumes "facebook_api en token = Inr p"
    and "find (\<lambda>r. email r = fb_email p) (rows w) = Some a"
  shows "signInWithFacebook en token w
       = user_save (a\<lparr>facebook_id := fb_id p\<rparr>) (emit (Find ''email'' (fb_email p)) w)"
  using assms by (simp add: signInWithFacebook_def queries_find_email user_set_facebook)

lemma facebook_by_id:
  assumes "facebook_api en token = Inr p"
    and "find (\<lambda>r. email r = fb_email p) (rows w) = None"
    and "find (\<lambda>r. facebook_id r = fb_id p) (rows w) = Some b"
  shows "signInWithFacebook en token w
       = (Inr b, emit (Find ''facebook_id'' (fb_id p)) (emit (Find ''email'' (fb_email p)) w))"
  using assms
  by (simp add: signInWithFacebook_def queries_find_email queries_find_facebook_id)

lemma facebook_create:
  assumes "facebook_api en token = Inr p"
    and "find (\<lambda>r. email r = fb_email p) (rows w) = None"
    and "find (\<lambda>r. facebook_id r = fb_id p) (rows w) = None"
  shows "signInWithFacebook en token w
       = (case fb_picture p of
            None \<Rightarrow> (Inl TypeError,
                      emit (Find ''facebook_id'' (fb_id p)) (emit (Find ''email'' (fb_email p)) w))
          | Some url \<Rightarrow>
              create_with_avatar en (facebook_account (now en) p) url
                (emit (Find ''facebook_id'' (fb_id p)) (emit (Find ''email'' (fb_email p)) w)))"
  using assms
  by (simp add: signInWithFacebook_def queries_find_email queries_find_facebook_id
      new_User_facebook Let_def facebook_account_def split: option.split)

text \<open>The outcomes of the creation path.\<close>

lemma create_download_fails:
  "downloadFileFromUrl en pic = Inl e \<Longrightarrow>
   create_with_avatar en usr pic w = (Inl e, emit (Download pic) w)"
  by (simp add: create_with_avatar_def files_download_def)

lemma create_upload_fails:
  "downloadFileFromUrl en pic = Inr path \<Longrightarrow> uploadUserImage en usr path = Inl e \<Longrightarrow>
   create_with_avatar en usr pic w = (Inl e, emit (Upload usr path) (emit (Download pic) w))"
  by (simp add: create_with_avatar_def files_download_def files_upload_def)

lemma create_succeeds:
  assumes "downloadFileFromUrl en pic = Inr path" and "uploadUserImage en usr path = Inr url"
    and "isNew usr" and "u' = usr\<lparr>image_url := JString url, user_id := JNumber (fresh_id (rows w))\<rparr>"
  shows "create_with_avatar en usr pic w
       = (Inr u', \<lparr> rows = rows w @ [u'],
                    trace = trace w @ [Download pic, Upload usr path, Save u'] \<rparr>)"
proof -
  have n: "isNew (usr\<lparr>image_url := JString url\<rparr>)"
    using assms(3) by (simp add: isNew_def)
  show ?thesis
    using assms(1,2)
    by (simp add: create_with_avatar_def files_download_def files_upload_def user_set_image
        user_save_new [OF n] assms(4))
qed

lemma result_eqI:
  "fst X = r \<Longrightarrow> rows (snd X) = rs \<Longrightarrow> trace (snd X) = t \<Longrightarrow>
   X = (r, \<lparr> rows = rs, trace = t \<rparr>)"
  by (cases X) (auto intro: world.equality)

lemma isNew_google_account [simp]: "isNew (google_account t p)"
  by (simp add: isNew_def google_account_def)

lemma isNew_facebook_account [simp]: "isNew (facebook_account t q)"
  by (simp add: isNew_def facebook_account_def)

lemma find_map_replace:
  "find P xs = Some a \<Longrightarrow> P a' \<Longrightarrow>
   find P (map (\<lambda>r. if user_id r = user_id a then a' else r) xs) = Some a'"
  by (induction xs) (auto split: if_splits)

lemma map_replace_idem:
  "user_id a' = i \<Longrightarrow>
   map (\<lambda>r. if user_id r = i then a' else r) (map (\<lambda>r. if user_id r = i then a' else r) xs)
     = map (\<lambda>r. if user_id r = i then a' else r) xs"
  by (induction xs) auto

lemma find_append_last:
  "find P xs = None \<Longrightarrow> P y \<Longrightarrow> find P (xs @ [y]) = Some y"
  by (induction xs) (auto split: if_splits)

lemma map_replace_fresh:
  "\<forall>r \<in> set xs. user_id r \<noteq> user_id y \<Longrightarrow>
   map (\<lambda>r. if user_id r = user_id y then y else r) (xs @ [y]) = xs @ [y]"
  by (induction xs) auto

lemma create_success:
  assumes "create_with_avatar en usr pic w = (Inr u, w1)" and "isNew usr"
  shows "\<exists>url. u = usr\<lparr>image_url := JString url, user_id := JNumber (fresh_id (rows w))\<rparr>
       \<and> rows w1 = rows w @ [u]"
proof (cases "downloadFileFromUrl en pic")
  case (Inl e)
  then show ?thesis using assms(1) by (simp add: create_download_fails)
next
  case (Inr path)
  show ?thesis
  proof (cases "uploadUserImage en usr path")
    case (Inl e)
    then show ?thesis using assms(1) Inr by (simp add: create_upload_fails)
  next
    case up: (Inr url)
    show ?thesis
      using assms(1) create_succeeds [OF Inr up assms(2) refl, of w] by auto
  qed
qed

lemma user_save_linked_again:
  assumes "\<not> isNew u"
  shows "fst (user_save u w) = Inr u
       \<and> rows (snd (user_save u w)) = map (\<lambda>r. if user_id r = user_id u then u else r) (rows w)"
  by (simp add: user_save_existing [OF assms])

lemma google_idempotent:
  assumes st: "stored (rows w)" and run: "signInWithGoogle en code w = (Inr u, w1)"
  shows "fst (signInWithGoogle en code w1) = Inr u
       \<and> rows (snd (signInWithGoogle en code w1)) = rows w1"
proof -
  obtain tok where tok: "getOauth2 en code = Inr tok"
    using run by (cases "getOauth2 en code") (simp_all add: signInWithGoogle_def)
  obtain p where p: "userinfo_get en tok = Inr p"
    using run tok by (cases "userinfo_get en tok") (simp_all add: signInWithGoogle_def)
  let ?P = "\<lambda>r. email r = g_email p"
  let ?Q = "\<lambda>r. google_id r = g_id p"
  have relink: "fst (signInWithGoogle en code w1) = Inr u
       \<and> rows (snd (signInWithGoogle en code w1)) = rows w1"
    if f: "find ?P (rows w1) = Some u" and g: "google_id u = g_id p" and n: "\<not> isNew u"
      and stay: "map (\<lambda>r. if user_id r = user_id u then u else r) (rows w1) = rows w1"
  proof -
    have same: "u\<lparr>google_id := g_id p\<rparr> = u" using g by simp
    show ?thesis
      using google_by_email [OF tok p f] n stay
      by (simp add: same user_save_existing)
  qed
  show ?thesis
  proof (cases "find ?P (rows w)")
    case (Some a)
    have ain: "a \<in> set (rows w)" and ea: "email a = g_email p"
      using find_SomeD [OF Some] by simp_all
    let ?a' = "a\<lparr>google_id := g_id p\<rparr>"
    have old: "\<not> isNew ?a'"
      using stored_not_new [OF st ain] by (simp add: isNew_def)
    have u: "u = ?a'" and w1: "rows w1 = map (\<lambda>r. if user_id r = user_id a then ?a' else r) (rows w)"
      using run google_by_email [OF tok p Some] by (auto simp: user_save_existing [OF old])
    have f1: "find ?P (rows w1) = Some u"
      unfolding w1 u using Some ea by (intro find_map_replace) simp_all
    have fx: "map (\<lambda>r. if user_id r = user_id u then u else r) (rows w1) = rows w1"
      unfolding w1 u using map_replace_idem [of ?a' "user_id a" "rows w"] by simp
    show ?thesis
      using f1 old fx by (intro relink) (simp_all add: u)
  next
    case None
    show ?thesis
    proof (cases "find ?Q (rows w)")
      case (Some b)
      have u: "u = b" and w1: "rows w1 = rows w"
        using run google_by_id [OF tok p None Some] by auto
      show ?thesis
        using google_by_id [OF tok p, of w1 b] None Some by (simp add: w1 u)
    next
      case N2: None
      let ?nu = "google_account (now en) p"
      let ?w2 = "emit (Find ''google_id'' (g_id p)) (emit (Find ''email'' (g_email p)) w)"
      have c: "create_with_avatar en ?nu (g_picture p) ?w2 = (Inr u, w1)"
        using run google_create [OF tok p None N2] by simp
      obtain url where u: "u = ?nu\<lparr>image_url := JString url, user_id := JNumber (fresh_id (rows w))\<rparr>"
        and w1: "rows w1 = rows w @ [u]"
        using create_success [OF c isNew_google_account] by auto
      have eu: "email u = g_email p" and gu: "google_id u = g_id p"
        and idu: "user_id u = JNumber (fresh_id (rows w))"
        by (simp_all add: u google_account_def)
      have n: "\<not> isNew u" by (simp add: isNew_def idu)
      have f1: "find ?P (rows w1) = Some u"
        unfolding w1 using None eu by (intro find_append_last) simp_all
      have fr: "\<forall>r \<in> set (rows w). user_id r \<noteq> user_id u"
        using fresh_id_fresh by (simp add: idu)
      have fx: "map (\<lambda>r. if user_id r = user_id u then u else r) (rows w1) = rows w1"
        unfolding w1 using fr by (rule map_replace_fresh)
      show ?thesis using f1 gu n fx by (rule relink)
    qed
  qed
qed

lemma facebook_idempotent:
  assumes st: "stored (rows w)" and run: "signInWithFacebook en token w = (Inr u, w1)"
  shows "fst (signInWithFacebook en token w1) = Inr u
       \<and> rows (snd (signInWithFacebook en token w1)) = rows w1"
proof -
  obtain p where p: "facebook_api en token = Inr p"
    using run by (cases "facebook_api en token") (simp_all add: signInWithFacebook_def)
  let ?P = "\<lambda>r. email r = fb_email p"
  let ?Q = "\<lambda>r. facebook_id r = fb_id p"
  have relink: "fst (signInWithFacebook en token w1) = Inr u
       \<and> rows (snd (signInWithFacebook en token w1)) = rows w1"
    if f: "find ?P (rows w1) = Some u" and g: "facebook_id u = fb_id p" and n: "\<not> isNew u"
      and stay: "map (\<lambda>r. if user_id r = user_id u then u else r) (rows w1) = rows w1"
  proof -
    have same: "u\<lparr>facebook_id := fb_id p\<rparr> = u" using g by simp
    show ?thesis
      using facebook_by_email [OF p f] n stay
      by (simp add: same user_save_existing)
  qed
  show ?thesis
  proof (cases "find ?P (rows w)")
    case (Some a)
    have ain: "a \<in> set (rows w)" and ea: "email a = fb_email p"
      using find_SomeD [OF Some] by simp_all
    let ?a' = "a\<lparr>facebook_id := fb_id p\<rparr>"
    have old: "\<not> isNew ?a'"
      using stored_not_new [OF st ain] by (simp add: isNew_def)
    have u: "u = ?a'" and w1: "rows w1 = map (\<lambda>r. if user_id r = user_id a then ?a' else r) (rows w)"
      using run facebook_by_email [OF p Some] by (auto simp: user_save_existing [OF old])
    have f1: "find ?P (rows w1) = Some u"
      unfolding w1 u using Some ea by (intro find_map_replace) simp_all
    have fx: "map (\<lambda>r. if user_id r = user_id u then u else r) (rows w1) = rows w1"
      unfolding w1 u using map_replace_idem [of ?a' "user_id a" "rows w"] by simp
    show ?thesis
      using f1 old fx by (intro relink) (simp_all add: u)
  next
    case None
    show ?thesis
    proof (cases "find ?Q (rows w)")
      case (Some b)
      have u: "u = b" and w1: "rows w1 = rows w"
        using run facebook_by_id [OF p None Some] by auto
      show ?thesis
        using facebook_by_id [OF p, of w1 b] None Some by (simp add: w1 u)
    next
      case N2: None
      let ?nu = "facebook_account (now en) p"
      let ?w2 = "emit (Find ''facebook_id'' (fb_id p)) (emit (Find ''email'' (fb_email p)) w)"
      obtain pic where pic: "fb_picture p = Some pic"
        using run facebook_create [OF p None N2] by (cases "fb_picture p") simp_all
      have c: "create_with_avatar en ?nu pic ?w2 = (Inr u, w1)"
        using run facebook_create [OF p None N2] pic by simp
      obtain url where u: "u = ?nu\<lparr>image_url := JString url, user_id := JNumber (fresh_id (rows w))\<rparr>"
        and w1: "rows w1 = rows w @ [u]"
        using create_success [OF c isNew_facebook_account] by auto
      have eu: "email u = fb_email p" and gu: "facebook_id u = fb_id p"
        and idu: "user_id u = JNumber (fresh_id (rows w))"
        by (simp_all add: u facebook_account_def)
      have n: "\<not> isNew u" by (simp add: isNew_def idu)
      have f1: "find ?P (rows w1) = Some u"
        unfolding w1 using None eu by (intro find_append_last) simp_all
      have fr: "\<forall>r \<in> set (rows w). user_id r \<noteq> user_id u"
        using fresh_id_fresh by (simp add: idu)
      have fx: "map (\<lambda>r. if user_id r = user_id u then u else r) (rows w1) = rows w1"
        unfolding w1 using fr by (rule map_replace_fresh)
      show ?thesis using f1 gu n fx by (rule relink)
    qed
  qed
qed

text \<open>Two runs on the example data.\<close>

lemma eval_google_new:
  "signInWithGoogle (env_of gp_new fp_new) ''code'' world0
     = (Inr newcomer_g,
        \<lparr> rows = [alice, bob, newcomer_g],
          trace = [Find ''email'' (JString ''new@x.com''), Find ''google_id'' (JString ''g2''),
                   Download (JString ''http://img''),
                   Upload (google_account 5000 gp_new) ''/tmp/avatar'', Save newcomer_g] \<rparr>)"
  by (simp add: signInWithGoogle_def env_of_def queries_find_def emit_def world0_def alice_def
      bob_def gp_new_def create_with_avatar_def files_download_def files_upload_def
      new_User_google user_set_image user_save_def isNew_def fresh_id_def newcomer_g_def
      google_account_def Let_def)

lemma eval_facebook_link:
  "signInWithFacebook (env_of gp_link fp_link) ''token'' world_fb
     = (Inr (alice\<lparr>facebook_id := JString ''f1''\<rparr>),
        \<lparr> rows = [alice\<lparr>facebook_id := JString ''f1''\<rparr>, carol],
          trace = [Find ''email'' (JString ''a@x.com''),
                   Save (alice\<lparr>facebook_id := JString ''f1''\<rparr>)] \<rparr>)"
  by (simp add: signInWithFacebook_def env_of_def queries_find_def emit_def world_fb_def
      alice_def carol_def fp_link_def user_set_facebook user_save_def isNew_def)

lemma create_rows_prefix:
  assumes "isNew usr"
  shows "take (length (rows w)) (rows (snd (create_with_avatar en usr pic w))) = rows w"
proof (cases "downloadFileFromUrl en pic")
  case (Inl e)
  then show ?thesis by (simp add: create_download_fails)
next
  case (Inr path)
  show ?thesis
  proof (cases "uploadUserImage en usr path")
    case (Inl e)
    then show ?thesis using Inr by (simp add: create_upload_fails)
  next
    case up: (Inr url)
    show ?thesis by (simp add: create_succeeds [OF Inr up assms refl])
  qed
qed

lemma eval_google_clash:
  "signInWithGoogle (env_of gp_clash fp_link) ''code'' world0
     = (Inr (bob\<lparr>google_id := JString ''g9''\<rparr>),
        \<lparr> rows = [alice, bob\<lparr>google_id := JString ''g9''\<rparr>],
          trace = [Find ''email'' (JString ''b@x.com''),
                   Save (bob\<lparr>google_id := JString ''g9''\<rparr>)] \<rparr>)"
  by (simp add: signInWithGoogle_def env_of_def queries_find_def emit_def world0_def
      alice_def bob_def gp_clash_def user_set_google user_save_def isNew_def)


lemma swap_fields [simp]:
  "email (swap_ids u) = email u" "user_id (swap_ids u) = user_id u"
  "facebook_id (swap_ids u) = google_id u" "google_id (swap_ids u) = facebook_id u"
  by (simp_all add: swap_ids_def)


lemma isNew_swap [simp]: "isNew (swap_ids u) = isNew u"
  by (simp add: isNew_def)

lemma fresh_id_swap [simp]: "fresh_id (map swap_ids xs) = fresh_id xs"
  by (simp add: fresh_id_def comp_def)

lemma rows_swap_world [simp]: "rows (swap_world w) = map swap_ids (rows w)"
  by (simp add: swap_world_def)







text \<open>Two runs of the creation path where the avatar pipeline does not deliver.\<close>

lemma eval_google_empty_url:
  "signInWithGoogle env_empty_url ''code'' world0
     = (Inr newcomer_blank,
        \<lparr> rows = [alice, bob, newcomer_blank],
          trace = [Find ''email'' (JString ''new@x.com''), Find ''google_id'' (JString ''g2''),
                   Download (JString ''http://img''),
                   Upload (google_account 5000 gp_new) ''/tmp/avatar'', Save newcomer_blank] \<rparr>)"
  by (simp add: signInWithGoogle_def env_empty_url_def env_of_def queries_find_def emit_def
      world0_def alice_def bob_def gp_new_def create_with_avatar_def files_download_def
      files_upload_def new_User_google user_set_image user_save_def isNew_def fresh_id_def
      newcomer_blank_def google_account_def Let_def)

lemma eval_google_download_fails:
  "signInWithGoogle env_download_fails ''code'' world0
     = (Inl (External ''download''),
        \<lparr> rows = [alice, bob],
          trace = [Find ''email'' (JString ''new@x.com''), Find ''google_id'' (JString ''g2''),
                   Download (JString ''http://img'')] \<rparr>)"
  by (simp add: signInWithGoogle_def env_download_fails_def env_of_def queries_find_def emit_def
      world0_def alice_def bob_def gp_new_def create_with_avatar_def files_download_def
      new_User_google)

section \<open>Claims about social sign-in\<close>

text \<open>
  C1. Both sign-in flows decide as the Identity Resolver of the specification does, with
  the email lookup first and the first match winning. If \<open>resolve\<close> answers
  \<open>FoundByEmail a\<close>, the flow makes the email lookup only, links \<open>a\<close> and returns it. If
  it answers \<open>FoundByExternalId b\<close>, the flow makes the email lookup, then the lookup by
  the provider's external id, and returns \<open>b\<close>. If it answers \<open>NotFound\<close>, the flow makes
  the same two lookups in that order and goes on to create an account. In particular,
  when the email lookup finds \<open>a\<close> and the external-id lookup would find \<open>b\<close>, the answer
  is \<open>FoundByEmail a\<close> and the account returned is \<open>a\<close>, linked.
\<close>

theorem resolve_email_first:
  "(stored (rows w) \<and> getOauth2 en code = Inr tok \<and> userinfo_get en tok = Inr p
    \<longrightarrow> (case resolve ''google_id'' (g_email p) (g_id p) (rows w) of
           FoundByEmail a \<Rightarrow>
             find (\<lambda>r. email r = g_email p) (rows w) = Some a
             \<and> fst (signInWithGoogle en code w) = Inr (a\<lparr>google_id := g_id p\<rparr>)
             \<and> trace (snd (signInWithGoogle en code w))
                 = trace w @ [Find ''email'' (g_email p), Save (a\<lparr>google_id := g_id p\<rparr>)]
         | FoundByExternalId b \<Rightarrow>
             find (\<lambda>r. email r = g_email p) (rows w) = None
             \<and> find (\<lambda>r. google_id r = g_id p) (rows w) = Some b
             \<and> fst (signInWithGoogle en code w) = Inr b
             \<and> trace (snd (signInWithGoogle en code w))
                 = trace w @ [Find ''email'' (g_email p), Find ''google_id'' (g_id p)]
         | NotFound \<Rightarrow>
             find (\<lambda>r. email r = g_email p) (rows w) = None
             \<and> find (\<lambda>r. google_id r = g_id p) (rows w) = None
             \<and> signInWithGoogle en code w
                 = create_with_avatar en (google_account (now en) p) (g_picture p)
                     (emit (Find ''google_id'' (g_id p)) (emit (Find ''email'' (g_email p)) w)))
      \<and> (\<forall>a b. find (\<lambda>r. email r = g_email p) (rows w) = Some a
               \<and> find (\<lambda>r. google_id r = g_id p) (rows w) = Some b
            \<longrightarrow> resolve ''google_id'' (g_email p) (g_id p) (rows w) = FoundByEmail a
              \<and> fst (signInWithGoogle en code w) = Inr (a\<lparr>google_id := g_id p\<rparr>)))
 \<and> (stored (rows w) \<and> facebook_api en token = Inr q
    \<longrightarrow> (case resolve ''facebook_id'' (fb_email q) (fb_id q) (rows w) of
           FoundByEmail a \<Rightarrow>
             find (\<lambda>r. email r = fb_email q) (rows w) = Some a
             \<and> fst (signInWithFacebook en token w) = Inr (a\<lparr>facebook_id := fb_id q\<rparr>)
             \<and> trace (snd (signInWithFacebook en token w))
                 = trace w @ [Find ''email'' (fb_email q), Save (a\<lparr>facebook_id := fb_id q\<rparr>)]
         | FoundByExternalId b \<Rightarrow>
             find (\<lambda>r. email r = fb_email q) (rows w) = None
             \<and> find (\<lambda>r. facebook_id r = fb_id q) (rows w) = Some b
             \<and> fst (signInWithFacebook en token w) = Inr b
             \<and> trace (snd (signInWithFacebook en token w))
                 = trace w @ [Find ''email'' (fb_email q), Find ''facebook_id'' (fb_id q)]
         | NotFound \<Rightarrow>
             find (\<lambda>r. email r = fb_email q) (rows w) = None
             \<and> find (\<lambda>r. facebook_id r = fb_id q) (rows w) = None
             \<and> signInWithFacebook en token w
                 = (case fb_picture q of
                      None \<Rightarrow> (Inl TypeError,
                        emit (Find ''facebook_id'' (fb_id q)) (emit (Find ''email'' (fb_email q)) w))
                    | Some url \<Rightarrow>
                        create_with_avatar en (facebook_account (now en) q) url
                          (emit (Find ''facebook_id'' (fb_id q))
                             (emit (Find ''email'' (fb_email q)) w))))
      \<and> (\<forall>a b. find (\<lambda>r. email r = fb_email q) (rows w) = Some a
               \<and> find (\<lambda>r. facebook_id r = fb_id q) (rows w) = Some b
            \<longrightarrow> resolve ''facebook_id'' (fb_email q) (fb_id q) (rows w) = FoundByEmail a
              \<and> fst (signInWithFacebook en token w) = Inr (a\<lparr>facebook_id := fb_id q\<rparr>)))"
proof (intro conjI impI)
  assume h: "stored (rows w) \<and> getOauth2 en code = Inr tok \<and> userinfo_get en tok = Inr p"
  have linked: "fst (signInWithGoogle en code w) = Inr (a\<lparr>google_id := g_id p\<rparr>)
      \<and> trace (snd (signInWithGoogle en code w))
          = trace w @ [Find ''email'' (g_email p), Save (a\<lparr>google_id := g_id p\<rparr>)]"
    if f: "find (\<lambda>r. email r = g_email p) (rows w) = Some a" for a
  proof -
    have "a \<in> set (rows w)" using find_SomeD [OF f] by simp
    then have old: "\<not> isNew (a\<lparr>google_id := g_id p\<rparr>)"
      using h stored_not_new [of "rows w" a] by (simp add: isNew_def)
    show ?thesis
      using h f by (simp add: google_by_email user_save_existing [OF old])
  qed
  show "case resolve ''google_id'' (g_email p) (g_id p) (rows w) of
           FoundByEmail a \<Rightarrow>
             find (\<lambda>r. email r = g_email p) (rows w) = Some a
             \<and> fst (signInWithGoogle en code w) = Inr (a\<lparr>google_id := g_id p\<rparr>)
             \<and> trace (snd (signInWithGoogle en code w))
                 = trace w @ [Find ''email'' (g_email p), Save (a\<lparr>google_id := g_id p\<rparr>)]
         | FoundByExternalId b \<Rightarrow>
             find (\<lambda>r. email r = g_email p) (rows w) = None
             \<and> find (\<lambda>r. google_id r = g_id p) (rows w) = Some b
             \<and> fst (signInWithGoogle en code w) = Inr b
             \<and> trace (snd (signInWithGoogle en code w))
                 = trace w @ [Find ''email'' (g_email p), Find ''google_id'' (g_id p)]
         | NotFound \<Rightarrow>
             find (\<lambda>r. email r = g_email p) (rows w) = None
             \<and> find (\<lambda>r. google_id r = g_id p) (rows w) = None
             \<and> signInWithGoogle en code w
                 = create_with_avatar en (google_account (now en) p) (g_picture p)
                     (emit (Find ''google_id'' (g_id p)) (emit (Find ''email'' (g_email p)) w))"
  proof (cases "find (\<lambda>r. email r = g_email p) (rows w)")
    case (Some a)
    then show ?thesis using linked [OF Some] by (simp add: resolve_def)
  next
    case None
    show ?thesis
    proof (cases "find (\<lambda>r. google_id r = g_id p) (rows w)")
      case (Some b)
      then show ?thesis using h None by (simp add: resolve_def google_by_id)
    next
      case N2: None
      then show ?thesis using h None by (simp add: resolve_def google_create)
    qed
  qed
  show "\<forall>a b. find (\<lambda>r. email r = g_email p) (rows w) = Some a
               \<and> find (\<lambda>r. google_id r = g_id p) (rows w) = Some b
            \<longrightarrow> resolve ''google_id'' (g_email p) (g_id p) (rows w) = FoundByEmail a
              \<and> fst (signInWithGoogle en code w) = Inr (a\<lparr>google_id := g_id p\<rparr>)"
    using linked by (simp add: resolve_def)
next
  assume h: "stored (rows w) \<and> facebook_api en token = Inr q"
  have linked: "fst (signInWithFacebook en token w) = Inr (a\<lparr>facebook_id := fb_id q\<rparr>)
      \<and> trace (snd (signInWithFacebook en token w))
          = trace w @ [Find ''email'' (fb_email q), Save (a\<lparr>facebook_id := fb_id q\<rparr>)]"
    if f: "find (\<lambda>r. email r = fb_email q) (rows w) = Some a" for a
  proof -
    have "a \<in> set (rows w)" using find_SomeD [OF f] by simp
    then have old: "\<not> isNew (a\<lparr>facebook_id := fb_id q\<rparr>)"
      using h stored_not_new [of "rows w" a] by (simp add: isNew_def)
    show ?thesis
      using h f by (simp add: facebook_by_email user_save_existing [OF old])
  qed
  show "case resolve ''facebook_id'' (fb_email q) (fb_id q) (rows w) of
           FoundByEmail a \<Rightarrow>
             find (\<lambda>r. email r = fb_email q) (rows w) = Some a
             \<and> fst (signInWithFacebook en token w) = Inr (a\<lparr>facebook_id := fb_id q\<rparr>)
             \<and> trace (snd (signInWithFacebook en token w))
                 = trace w @ [Find ''email'' (fb_email q), Save (a\<lparr>facebook_id := fb_id q\<rparr>)]
         | FoundByExternalId b \<Rightarrow>
             find (\<lambda>r. email r = fb_email q) (rows w) = None
             \<and> find (\<lambda>r. facebook_id r = fb_id q) (rows w) = Some b
             \<and> fst (signInWithFacebook en token w) = Inr b
             \<and> trace (snd (signInWithFacebook en token w))
                 = trace w @ [Find ''email'' (fb_email q), Find ''facebook_id'' (fb_id q)]
         | NotFound \<Rightarrow>
             find (\<lambda>r. email r = fb_email q) (rows w) = None
             \<and> find (\<lambda>r. facebook_id r = fb_id q) (rows w) = None
             \<and> signInWithFacebook en token w
                 = (case fb_picture q of
                      None \<Rightarrow> (Inl TypeError,
                        emit (Find ''facebook_id'' (fb_id q)) (emit (Find ''email'' (fb_email q)) w))
                    | Some url \<Rightarrow>
                        create_with_avatar en (facebook_account (now en) q) url
                          (emit (Find ''facebook_id'' (fb_id q))
                             (emit (Find ''email'' (fb_email q)) w)))"
  proof (cases "find (\<lambda>r. email r = fb_email q) (rows w)")
    case (Some a)
    then show ?thesis using linked [OF Some] by (simp add: resolve_def)
  next
    case None
    show ?thesis
    proof (cases "find (\<lambda>r. facebook_id r = fb_id q) (rows w)")
      case (Some b)
      then show ?thesis using h None by (simp add: resolve_def facebook_by_id)
    next
      case N2: None
      then show ?thesis using h None by (simp add: resolve_def facebook_create)
    qed
  qed
  show "\<forall>a b. find (\<lambda>r. email r = fb_email q) (rows w) = Some a
               \<and> find (\<lambda>r. facebook_id r = fb_id q) (rows w) = Some b
            \<longrightarrow> resolve ''facebook_id'' (fb_email q) (fb_id q) (rows w) = FoundByEmail a
              \<and> fst (signInWithFacebook en token w) = Inr (a\<lparr>facebook_id := fb_id q\<rparr>)"
    using linked by (simp add: resolve_def)
qed

theorem resolve_email_first_witness:
  "resolve ''google_id'' (JString ''a@x.com'') (JString ''g7'') [alice, bob] = FoundByEmail alice
   \<and> find (\<lambda>r. google_id r = JString ''g7'') [alice, bob] = Some bob
   \<and> fst (signInWithGoogle (env_of gp_both fp_both) ''code'' world0)
       = Inr (alice\<lparr>google_id := JString ''g7''\<rparr>)
   \<and> resolve ''facebook_id'' (JString ''a@x.com'') (JString ''f5'') [alice, carol] = FoundByEmail alice
   \<and> find (\<lambda>r. facebook_id r = JString ''f5'') [alice, carol] = Some carol
   \<and> fst (signInWithFacebook (env_of gp_both fp_both) ''token'' world_fb)
       = Inr (alice\<lparr>facebook_id := JString ''f5''\<rparr>)"
proof -
  let ?E = "env_of gp_both fp_both"
  have hg: "stored (rows world0) \<and> getOauth2 ?E ''code'' = Inr ''token-code''
      \<and> userinfo_get ?E ''token-code'' = Inr gp_both"
    by (simp add: stored_def env_of_def world0_def alice_def bob_def)
  have hf: "stored (rows world_fb) \<and> facebook_api ?E ''token'' = Inr fp_both"
    by (simp add: stored_def env_of_def world_fb_def alice_def carol_def)
  have fg: "find (\<lambda>r. email r = g_email gp_both) (rows world0) = Some alice
      \<and> find (\<lambda>r. google_id r = g_id gp_both) (rows world0) = Some bob"
    by (simp add: world0_def alice_def bob_def gp_both_def)
  have ff: "find (\<lambda>r. email r = fb_email fp_both) (rows world_fb) = Some alice
      \<and> find (\<lambda>r. facebook_id r = fb_id fp_both) (rows world_fb) = Some carol"
    by (simp add: world_fb_def alice_def carol_def fp_both_def)
  note G = resolve_email_first
      [where en = ?E and code = "''code''" and tok = "''token-code''" and p = gp_both
         and w = world0, THEN conjunct1, rule_format, OF hg, THEN conjunct2, rule_format, OF fg]
  note F = resolve_email_first
      [where en = ?E and token = "''token''" and q = fp_both
         and w = world_fb, THEN conjunct2, rule_format, OF hf, THEN conjunct2, rule_format, OF ff]
  have e: "g_email gp_both = JString ''a@x.com''" "g_id gp_both = JString ''g7''"
    "fb_email fp_both = JString ''a@x.com''" "fb_id fp_both = JString ''f5''"
    "rows world0 = [alice, bob]" "rows world_fb = [alice, carol]"
    by (simp_all add: gp_both_def fp_both_def world0_def world_fb_def)
  show ?thesis
    using G F fg ff unfolding e by simp
qed

text \<open>
  C2, as claimed, fails on the code in two ways. The code never tests the URL the upload
  returns: with no account matching the profile and an upload that answers with the
  empty string, the sign-in persists a new account whose avatar URL is empty. And the
  creation is not unconditional: with no account matching the profile and a download
  that raises, the sign-in raises and persists no account at all.
\<close>

theorem signIn_creates_one_account_counterexample:
  "find (\<lambda>r. email r = g_email gp_new) (rows world0) = None
   \<and> find (\<lambda>r. google_id r = g_id gp_new) (rows world0) = None
   \<and> fst (signInWithGoogle env_empty_url ''code'' world0) = Inr newcomer_blank
   \<and> rows (snd (signInWithGoogle env_empty_url ''code'' world0)) = [alice, bob, newcomer_blank]
   \<and> image_url newcomer_blank = JString []
   \<and> missing (image_url newcomer_blank)
   \<and> fst (signInWithGoogle env_download_fails ''code'' world0) = Inl (External ''download'')
   \<and> rows (snd (signInWithGoogle env_download_fails ''code'' world0)) = rows world0"
  by (simp add: eval_google_empty_url eval_google_download_fails)
     (simp add: world0_def alice_def bob_def gp_new_def newcomer_blank_def missing_def)

text \<open>
  C2, amended. When no stored account has the profile's email and none has its external
  id for the provider, and the avatar pipeline succeeds (the download of the profile's
  picture returns a path and the upload for the new account returns a URL; for Facebook
  the profile carries a picture), the sign-in succeeds and persists exactly one new
  account \<open>u'\<close>: the rows are the old rows followed by \<open>u'\<close>, the trace holds one \<open>Save\<close>,
  after the download and the upload, the id of \<open>u'\<close> is borne by no old row, its names
  and email are the profile's, its external id for the originating provider is the
  profile's and the other provider's is unset, its registration date is the time of the
  call, and its avatar URL is the URL the upload returned, whatever that is: it is empty
  exactly when the upload returned the empty string.
\<close>

theorem signIn_creates_one_account:
  "(getOauth2 en code = Inr tok \<and> userinfo_get en tok = Inr p
      \<and> find (\<lambda>r. email r = g_email p) (rows w) = None
      \<and> find (\<lambda>r. google_id r = g_id p) (rows w) = None
      \<and> downloadFileFromUrl en (g_picture p) = Inr path
      \<and> uploadUserImage en (google_account (now en) p) path = Inr url
    \<longrightarrow> (let u' = \<lparr> user_id = JNumber (fresh_id (rows w)), first_name = g_given_name p,
                     last_name = g_family_name p, email = g_email p, image_url = JString url,
                     google_id = g_id p, facebook_id = JUndefined,
                     registration_date = JDate (now en) \<rparr>
         in fst (signInWithGoogle en code w) = Inr u'
          \<and> rows (snd (signInWithGoogle en code w)) = rows w @ [u']
          \<and> trace (snd (signInWithGoogle en code w))
              = trace w @ [Find ''email'' (g_email p), Find ''google_id'' (g_id p),
                           Download (g_picture p), Upload (google_account (now en) p) path,
                           Save u']
          \<and> (\<forall>r \<in> set (rows w). user_id r \<noteq> user_id u')
          \<and> missing (image_url u') = (url = [])))
 \<and> (facebook_api en token = Inr q
      \<and> find (\<lambda>r. email r = fb_email q) (rows w) = None
      \<and> find (\<lambda>r. facebook_id r = fb_id q) (rows w) = None
      \<and> fb_picture q = Some pic
      \<and> downloadFileFromUrl en pic = Inr path'
      \<and> uploadUserImage en (facebook_account (now en) q) path' = Inr url'
    \<longrightarrow> (let v' = \<lparr> user_id = JNumber (fresh_id (rows w)), first_name = fb_first_name q,
                     last_name = fb_last_name q, email = fb_email q, image_url = JString url',
                     google_id = JUndefined, facebook_id = fb_id q,
                     registration_date = JDate (now en) \<rparr>
         in fst (signInWithFacebook en token w) = Inr v'
          \<and> rows (snd (signInWithFacebook en token w)) = rows w @ [v']
          \<and> trace (snd (signInWithFacebook en token w))
              = trace w @ [Find ''email'' (fb_email q), Find ''facebook_id'' (fb_id q),
                           Download pic, Upload (facebook_account (now en) q) path', Save v']
          \<and> (\<forall>r \<in> set (rows w). user_id r \<noteq> user_id v')
          \<and> missing (image_url v') = (url' = [])))"
proof (intro conjI impI)
  assume h: "getOauth2 en code = Inr tok \<and> userinfo_get en tok = Inr p
      \<and> find (\<lambda>r. email r = g_email p) (rows w) = None
      \<and> find (\<lambda>r. google_id r = g_id p) (rows w) = None
      \<and> downloadFileFromUrl en (g_picture p) = Inr path
      \<and> uploadUserImage en (google_account (now en) p) path = Inr url"
  define u' where "u' = \<lparr> user_id = JNumber (fresh_id (rows w)), first_name = g_given_name p,
                     last_name = g_family_name p, email = g_email p, image_url = JString url,
                     google_id = g_id p, facebook_id = JUndefined,
                     registration_date = JDate (now en) \<rparr>"
  let ?w2 = "emit (Find ''google_id'' (g_id p)) (emit (Find ''email'' (g_email p)) w)"
  have u': "u' = (google_account (now en) p)
      \<lparr>image_url := JString url, user_id := JNumber (fresh_id (rows ?w2))\<rparr>"
    by (simp add: u'_def google_account_def)
  have run: "signInWithGoogle en code w
      = (Inr u', \<lparr> rows = rows ?w2 @ [u'],
           trace = trace ?w2 @ [Download (g_picture p), Upload (google_account (now en) p) path,
                                Save u'] \<rparr>)"
    using h create_succeeds [OF _ _ isNew_google_account u', of en "g_picture p" path]
    by (simp add: google_create)
  have r1: "fst (signInWithGoogle en code w) = Inr u'" by (simp add: run)
  have r2: "rows (snd (signInWithGoogle en code w)) = rows w @ [u']" by (simp add: run)
  have r3: "trace (snd (signInWithGoogle en code w))
      = trace w @ [Find ''email'' (g_email p), Find ''google_id'' (g_id p),
                   Download (g_picture p), Upload (google_account (now en) p) path, Save u']"
    by (simp add: run)
  have r4: "\<forall>r \<in> set (rows w). user_id r \<noteq> user_id u'"
    using fresh_id_fresh by (simp add: u'_def)
  have r5: "missing (image_url u') = (url = [])" by (simp add: u'_def missing_def)
  from r1 r2 r3 r4 r5
  show "let u' = \<lparr> user_id = JNumber (fresh_id (rows w)), first_name = g_given_name p,
                     last_name = g_family_name p, email = g_email p, image_url = JString url,
                     google_id = g_id p, facebook_id = JUndefined,
                     registration_date = JDate (now en) \<rparr>
         in fst (signInWithGoogle en code w) = Inr u'
          \<and> rows (snd (signInWithGoogle en code w)) = rows w @ [u']
          \<and> trace (snd (signInWithGoogle en code w))
              = trace w @ [Find ''email'' (g_email p), Find ''google_id'' (g_id p),
                           Download (g_picture p), Upload (google_account (now en) p) path,
                           Save u']
          \<and> (\<forall>r \<in> set (rows w). user_id r \<noteq> user_id u')
          \<and> missing (image_url u') = (url = [])"
    unfolding Let_def u'_def by (intro conjI)
next
  assume h: "facebook_api en token = Inr q
      \<and> find (\<lambda>r. email r = fb_email q) (rows w) = None
      \<and> find (\<lambda>r. facebook_id r = fb_id q) (rows w) = None
      \<and> fb_picture q = Some pic
      \<and> downloadFileFromUrl en pic = Inr path'
      \<and> uploadUserImage en (facebook_account (now en) q) path' = Inr url'"
  define v' where "v' = \<lparr> user_id = JNumber (fresh_id (rows w)), first_name = fb_first_name q,
                     last_name = fb_last_name q, email = fb_email q, image_url = JString url',
                     google_id = JUndefined, facebook_id = fb_id q,
                     registration_date = JDate (now en) \<rparr>"
  let ?w2 = "emit (Find ''facebook_id'' (fb_id q)) (emit (Find ''email'' (fb_email q)) w)"
  have v': "v' = (facebook_account (now en) q)
      \<lparr>image_url := JString url', user_id := JNumber (fresh_id (rows ?w2))\<rparr>"
    by (simp add: v'_def facebook_account_def)
  have run: "signInWithFacebook en token w
      = (Inr v', \<lparr> rows = rows ?w2 @ [v'],
           trace = trace ?w2 @ [Download pic, Upload (facebook_account (now en) q) path',
                                Save v'] \<rparr>)"
    using h create_succeeds [OF _ _ isNew_facebook_account v', of en pic path']
    by (simp add: facebook_create)
  have r1: "fst (signInWithFacebook en token w) = Inr v'" by (simp add: run)
  have r2: "rows (snd (signInWithFacebook en token w)) = rows w @ [v']" by (simp add: run)
  have r3: "trace (snd (signInWithFacebook en token w))
      = trace w @ [Find ''email'' (fb_email q), Find ''facebook_id'' (fb_id q),
                   Download pic, Upload (facebook_account (now en) q) path', Save v']"
    by (simp add: run)
  have r4: "\<forall>r \<in> set (rows w). user_id r \<noteq> user_id v'"
    using fresh_id_fresh by (simp add: v'_def)
  have r5: "missing (image_url v') = (url' = [])" by (simp add: v'_def missing_def)
  from r1 r2 r3 r4 r5
  show "let v' = \<lparr> user_id = JNumber (fresh_id (rows w)), first_name = fb_first_name q,
                     last_name = fb_last_name q, email = fb_email q, image_url = JString url',
                     google_id = JUndefined, facebook_id = fb_id q,
                     registration_date = JDate (now en) \<rparr>
         in fst (signInWithFacebook en token w) = Inr v'
          \<and> rows (snd (signInWithFacebook en token w)) = rows w @ [v']
          \<and> trace (snd (signInWithFacebook en token w))
              = trace w @ [Find ''email'' (fb_email q), Find ''facebook_id'' (fb_id q),
                           Download pic, Upload (facebook_account (now en) q) path', Save v']
          \<and> (\<forall>r \<in> set (rows w). user_id r \<noteq> user_id v')
          \<and> missing (image_url v') = (url' = [])"
    unfolding Let_def v'_def by (intro conjI)
qed

theorem signIn_creates_one_account_witness:
  "fst (signInWithGoogle (env_of gp_new fp_new) ''code'' world0) = Inr newcomer_g
   \<and> rows (snd (signInWithGoogle (env_of gp_new fp_new) ''code'' world0))
       = [alice, bob, newcomer_g]
   \<and> fst (signInWithFacebook (env_of gp_new fp_new) ''token'' world0) = Inr newcomer_f
   \<and> rows (snd (signInWithFacebook (env_of gp_new fp_new) ''token'' world0))
       = [alice, bob, newcomer_f]"
proof -
  let ?E = "env_of gp_new fp_new"
  have fr: "fresh_id (rows world0) = 3"
    by (simp add: fresh_id_def world0_def alice_def bob_def)
  have hg: "getOauth2 ?E ''code'' = Inr ''token-code'' \<and> userinfo_get ?E ''token-code'' = Inr gp_new
      \<and> find (\<lambda>r. email r = g_email gp_new) (rows world0) = None
      \<and> find (\<lambda>r. google_id r = g_id gp_new) (rows world0) = None
      \<and> downloadFileFromUrl ?E (g_picture gp_new) = Inr ''/tmp/avatar''
      \<and> uploadUserImage ?E (google_account (now ?E) gp_new) ''/tmp/avatar'' = Inr ''http://cdn/new.png''"
    by (simp add: env_of_def world0_def alice_def bob_def gp_new_def)
  have hf: "facebook_api ?E ''token'' = Inr fp_new
      \<and> find (\<lambda>r. email r = fb_email fp_new) (rows world0) = None
      \<and> find (\<lambda>r. facebook_id r = fb_id fp_new) (rows world0) = None
      \<and> fb_picture fp_new = Some (JString ''http://img'')
      \<and> downloadFileFromUrl ?E (JString ''http://img'') = Inr ''/tmp/avatar''
      \<and> uploadUserImage ?E (facebook_account (now ?E) fp_new) ''/tmp/avatar'' = Inr ''http://cdn/new.png''"
    by (simp add: env_of_def world0_def alice_def bob_def fp_new_def)
  have ng: "\<lparr> user_id = JNumber (fresh_id (rows world0)), first_name = g_given_name gp_new,
                last_name = g_family_name gp_new, email = g_email gp_new,
                image_url = JString ''http://cdn/new.png'',
                google_id = g_id gp_new, facebook_id = JUndefined,
                registration_date = JDate (now ?E) \<rparr> = newcomer_g"
    unfolding fr by (simp add: env_of_def gp_new_def newcomer_g_def)
  have nf: "\<lparr> user_id = JNumber (fresh_id (rows world0)), first_name = fb_first_name fp_new,
                last_name = fb_last_name fp_new, email = fb_email fp_new,
                image_url = JString ''http://cdn/new.png'',
                google_id = JUndefined, facebook_id = fb_id fp_new,
                registration_date = JDate (now ?E) \<rparr> = newcomer_f"
    unfolding fr by (simp add: env_of_def fp_new_def newcomer_f_def)
  note G = signIn_creates_one_account
      [where en = ?E and code = "''code''" and tok = "''token-code''" and p = gp_new
         and w = world0 and path = "''/tmp/avatar''" and url = "''http://cdn/new.png''",
       THEN conjunct1, rule_format, OF hg, unfolded Let_def ng]
  note F = signIn_creates_one_account
      [where en = ?E and token = "''token''" and q = fp_new
         and w = world0 and pic = "JString ''http://img''" and path' = "''/tmp/avatar''"
         and url' = "''http://cdn/new.png''",
       THEN conjunct2, rule_format, OF hf, unfolded Let_def nf]
  have rw: "rows world0 = [alice, bob]" by (simp add: world0_def)
  show ?thesis
    using G [THEN conjunct1] G [THEN conjunct2, THEN conjunct1]
      F [THEN conjunct1] F [THEN conjunct2, THEN conjunct1]
    unfolding rw by simp
qed

text \<open>
  C3. In the creation branch (no account by email, none by external id) the avatar is
  downloaded and uploaded before the account is saved. If the download raises, or the
  download succeeds and the upload raises, the sign-in raises that error, the rows are
  the ones it started from and the trace ends at the failed step with no \<open>Save\<close>. When
  both succeed the trace ends with the download, the upload and then the one \<open>Save\<close>.
  In the Facebook flow a profile without a picture raises before the download, with the
  rows unchanged as well.
\<close>

theorem avatar_ingested_before_persist:
  "(getOauth2 en code = Inr tok \<and> userinfo_get en tok = Inr p
      \<and> find (\<lambda>r. email r = g_email p) (rows w) = None
      \<and> find (\<lambda>r. google_id r = g_id p) (rows w) = None
      \<and> t0 = trace w @ [Find ''email'' (g_email p), Find ''google_id'' (g_id p)]
      \<and> nu = google_account (now en) p
    \<longrightarrow> (\<forall>e. downloadFileFromUrl en (g_picture p) = Inl e
            \<longrightarrow> signInWithGoogle en code w
                = (Inl e, \<lparr> rows = rows w, trace = t0 @ [Download (g_picture p)] \<rparr>))
      \<and> (\<forall>path e. downloadFileFromUrl en (g_picture p) = Inr path
               \<and> uploadUserImage en nu path = Inl e
            \<longrightarrow> signInWithGoogle en code w
                = (Inl e, \<lparr> rows = rows w,
                             trace = t0 @ [Download (g_picture p), Upload nu path] \<rparr>))
      \<and> (\<forall>path url. downloadFileFromUrl en (g_picture p) = Inr path
               \<and> uploadUserImage en nu path = Inr url
            \<longrightarrow> (\<exists>u'. signInWithGoogle en code w
                = (Inr u', \<lparr> rows = rows w @ [u'],
                              trace = t0 @ [Download (g_picture p), Upload nu path, Save u'] \<rparr>))))
 \<and> (facebook_api en token = Inr q
      \<and> find (\<lambda>r. email r = fb_email q) (rows w) = None
      \<and> find (\<lambda>r. facebook_id r = fb_id q) (rows w) = None
      \<and> t1 = trace w @ [Find ''email'' (fb_email q), Find ''facebook_id'' (fb_id q)]
      \<and> nv = facebook_account (now en) q
    \<longrightarrow> (fb_picture q = None
            \<longrightarrow> signInWithFacebook en token w = (Inl TypeError, \<lparr> rows = rows w, trace = t1 \<rparr>))
      \<and> (\<forall>pic e. fb_picture q = Some pic \<and> downloadFileFromUrl en pic = Inl e
            \<longrightarrow> signInWithFacebook en token w
                = (Inl e, \<lparr> rows = rows w, trace = t1 @ [Download pic] \<rparr>))
      \<and> (\<forall>pic path e. fb_picture q = Some pic \<and> downloadFileFromUrl en pic = Inr path
               \<and> uploadUserImage en nv path = Inl e
            \<longrightarrow> signInWithFacebook en token w
                = (Inl e, \<lparr> rows = rows w, trace = t1 @ [Download pic, Upload nv path] \<rparr>))
      \<and> (\<forall>pic path url. fb_picture q = Some pic \<and> downloadFileFromUrl en pic = Inr path
               \<and> uploadUserImage en nv path = Inr url
            \<longrightarrow> (\<exists>u'. signInWithFacebook en token w
                = (Inr u', \<lparr> rows = rows w @ [u'],
                              trace = t1 @ [Download pic, Upload nv path, Save u'] \<rparr>))))"
proof (intro conjI impI allI)
  assume h: "getOauth2 en code = Inr tok \<and> userinfo_get en tok = Inr p
      \<and> find (\<lambda>r. email r = g_email p) (rows w) = None
      \<and> find (\<lambda>r. google_id r = g_id p) (rows w) = None
      \<and> t0 = trace w @ [Find ''email'' (g_email p), Find ''google_id'' (g_id p)]
      \<and> nu = google_account (now en) p"
  let ?w2 = "emit (Find ''google_id'' (g_id p)) (emit (Find ''email'' (g_email p)) w)"
  have run: "signInWithGoogle en code w = create_with_avatar en nu (g_picture p) ?w2"
    using h by (simp add: google_create)
  have t0: "t0 = trace ?w2" and r0: "rows ?w2 = rows w" using h by simp_all
  { fix e assume "downloadFileFromUrl en (g_picture p) = Inl e"
    then show "signInWithGoogle en code w
        = (Inl e, \<lparr> rows = rows w, trace = t0 @ [Download (g_picture p)] \<rparr>)"
      by (simp add: run create_download_fails t0 emit_def) }
  { fix path e
    assume "downloadFileFromUrl en (g_picture p) = Inr path \<and> uploadUserImage en nu path = Inl e"
    then show "signInWithGoogle en code w
        = (Inl e, \<lparr> rows = rows w, trace = t0 @ [Download (g_picture p), Upload nu path] \<rparr>)"
      by (simp add: run create_upload_fails t0 emit_def) }
  { fix path url
    assume a: "downloadFileFromUrl en (g_picture p) = Inr path \<and> uploadUserImage en nu path = Inr url"
    have n: "isNew nu" using h by simp
    have "signInWithGoogle en code w
        = (Inr (nu\<lparr>image_url := JString url, user_id := JNumber (fresh_id (rows ?w2))\<rparr>),
           \<lparr> rows = rows ?w2 @ [nu\<lparr>image_url := JString url, user_id := JNumber (fresh_id (rows ?w2))\<rparr>],
             trace = trace ?w2 @ [Download (g_picture p), Upload nu path,
                       Save (nu\<lparr>image_url := JString url, user_id := JNumber (fresh_id (rows ?w2))\<rparr>)] \<rparr>)"
      unfolding run using a n by (intro create_succeeds) simp_all
    then show "\<exists>u'. signInWithGoogle en code w
        = (Inr u', \<lparr> rows = rows w @ [u'],
                      trace = t0 @ [Download (g_picture p), Upload nu path, Save u'] \<rparr>)"
      unfolding t0 r0 by blast }
next
  assume h: "facebook_api en token = Inr q
      \<and> find (\<lambda>r. email r = fb_email q) (rows w) = None
      \<and> find (\<lambda>r. facebook_id r = fb_id q) (rows w) = None
      \<and> t1 = trace w @ [Find ''email'' (fb_email q), Find ''facebook_id'' (fb_id q)]
      \<and> nv = facebook_account (now en) q"
  let ?w2 = "emit (Find ''facebook_id'' (fb_id q)) (emit (Find ''email'' (fb_email q)) w)"
  have run: "signInWithFacebook en token w
      = (case fb_picture q of None \<Rightarrow> (Inl TypeError, ?w2)
         | Some url \<Rightarrow> create_with_avatar en nv url ?w2)"
    using h by (simp add: facebook_create split: option.split)
  have t1: "t1 = trace ?w2" and r1: "rows ?w2 = rows w" using h by simp_all
  { assume "fb_picture q = None"
    then show "signInWithFacebook en token w = (Inl TypeError, \<lparr> rows = rows w, trace = t1 \<rparr>)"
      by (simp add: run t1 emit_def) }
  { fix pic e assume "fb_picture q = Some pic \<and> downloadFileFromUrl en pic = Inl e"
    then show "signInWithFacebook en token w
        = (Inl e, \<lparr> rows = rows w, trace = t1 @ [Download pic] \<rparr>)"
      by (simp add: run create_download_fails t1 emit_def) }
  { fix pic path e
    assume "fb_picture q = Some pic \<and> downloadFileFromUrl en pic = Inr path
        \<and> uploadUserImage en nv path = Inl e"
    then show "signInWithFacebook en token w
        = (Inl e, \<lparr> rows = rows w, trace = t1 @ [Download pic, Upload nv path] \<rparr>)"
      by (simp add: run create_upload_fails t1 emit_def) }
  { fix pic path url
    assume a: "fb_picture q = Some pic \<and> downloadFileFromUrl en pic = Inr path
        \<and> uploadUserImage en nv path = Inr url"
    have n: "isNew nv" using h by simp
    have "create_with_avatar en nv pic ?w2
        = (Inr (nv\<lparr>image_url := JString url, user_id := JNumber (fresh_id (rows ?w2))\<rparr>),
           \<lparr> rows = rows ?w2 @ [nv\<lparr>image_url := JString url, user_id := JNumber (fresh_id (rows ?w2))\<rparr>],
             trace = trace ?w2 @ [Download pic, Upload nv path,
                       Save (nv\<lparr>image_url := JString url, user_id := JNumber (fresh_id (rows ?w2))\<rparr>)] \<rparr>)"
      using a n by (intro create_succeeds) simp_all
    then have "\<exists>u'. create_with_avatar en nv pic ?w2
        = (Inr u', \<lparr> rows = rows w @ [u'], trace = t1 @ [Download pic, Upload nv path, Save u'] \<rparr>)"
      unfolding t1 r1 by blast
    then show "\<exists>u'. signInWithFacebook en token w
        = (Inr u', \<lparr> rows = rows w @ [u'], trace = t1 @ [Download pic, Upload nv path, Save u'] \<rparr>)"
      using a by (simp add: run) }
qed

theorem avatar_ingested_before_persist_witness:
  "signInWithGoogle env_upload_fails ''code'' world0
     = (Inl (External ''upload''),
        \<lparr> rows = [alice, bob],
          trace = [Find ''email'' (JString ''new@x.com''), Find ''google_id'' (JString ''g2''),
                   Download (JString ''http://img''),
                   Upload (google_account 5000 gp_new) ''/tmp/avatar''] \<rparr>)
   \<and> signInWithFacebook (env_of gp_new fp_nopic) ''token'' world0
     = (Inl TypeError,
        \<lparr> rows = [alice, bob],
          trace = [Find ''email'' (JString ''nopic@x.com''),
                   Find ''facebook_id'' (JString ''f3'')] \<rparr>)"
proof -
  let ?E = "env_upload_fails"
  let ?F = "env_of gp_new fp_nopic"
  let ?t0 = "[Find ''email'' (JString ''new@x.com''), Find ''google_id'' (JString ''g2'')]"
  let ?t1 = "[Find ''email'' (JString ''nopic@x.com''), Find ''facebook_id'' (JString ''f3'')]"
  have hg: "getOauth2 ?E ''code'' = Inr ''token-code'' \<and> userinfo_get ?E ''token-code'' = Inr gp_new
      \<and> find (\<lambda>r. email r = g_email gp_new) (rows world0) = None
      \<and> find (\<lambda>r. google_id r = g_id gp_new) (rows world0) = None
      \<and> ?t0 = trace world0 @ [Find ''email'' (g_email gp_new), Find ''google_id'' (g_id gp_new)]
      \<and> google_account 5000 gp_new = google_account (now ?E) gp_new"
    by (simp add: env_upload_fails_def env_of_def world0_def alice_def bob_def gp_new_def)
  have ug: "downloadFileFromUrl ?E (g_picture gp_new) = Inr ''/tmp/avatar''
      \<and> uploadUserImage ?E (google_account 5000 gp_new) ''/tmp/avatar'' = Inl (External ''upload'')"
    by (simp add: env_upload_fails_def env_of_def gp_new_def)
  have hf: "facebook_api ?F ''token'' = Inr fp_nopic
      \<and> find (\<lambda>r. email r = fb_email fp_nopic) (rows world0) = None
      \<and> find (\<lambda>r. facebook_id r = fb_id fp_nopic) (rows world0) = None
      \<and> ?t1 = trace world0 @ [Find ''email'' (fb_email fp_nopic), Find ''facebook_id'' (fb_id fp_nopic)]
      \<and> facebook_account 5000 fp_nopic = facebook_account (now ?F) fp_nopic"
    by (simp add: env_of_def world0_def alice_def bob_def fp_nopic_def)
  have nf: "fb_picture fp_nopic = None" by (simp add: fp_nopic_def)
  note G = avatar_ingested_before_persist
      [where en = ?E and code = "''code''" and tok = "''token-code''" and p = gp_new
         and w = world0 and ?t0.0 = ?t0 and nu = "google_account 5000 gp_new",
       THEN conjunct1, rule_format, OF hg, THEN conjunct2, THEN conjunct1, rule_format, OF ug]
  note F = avatar_ingested_before_persist
      [where en = ?F and token = "''token''" and q = fp_nopic
         and w = world0 and ?t1.0 = ?t1 and nv = "facebook_account 5000 fp_nopic",
       THEN conjunct2, rule_format, OF hf, THEN conjunct1, rule_format, OF nf]
  have g: "signInWithGoogle ?E ''code'' world0
     = (Inl (External ''upload''),
        \<lparr> rows = [alice, bob],
          trace = ?t0 @ [Download (JString ''http://img''),
                   Upload (google_account 5000 gp_new) ''/tmp/avatar''] \<rparr>)"
    using G by (simp add: world0_def gp_new_def)
  have f: "signInWithFacebook ?F ''token'' world0
     = (Inl TypeError, \<lparr> rows = [alice, bob], trace = ?t1 \<rparr>)"
    using F by (simp add: world0_def)
  from g f show ?thesis by simp
qed

text \<open>
  C4, as claimed, fails on the code: a stored external id is overwritten. Bob is stored
  with the Google id \<open>g7\<close>; a Google profile with Bob's email and the id \<open>g9\<close> signs
  in; the email lookup finds Bob and the linking step stores \<open>g9\<close> over \<open>g7\<close>.
\<close>

theorem external_id_overwritten_counterexample:
  "google_id bob = JString ''g7''
   \<and> email bob = g_email gp_clash
   \<and> rows world0 = [alice, bob]
   \<and> rows (snd (signInWithGoogle (env_of gp_clash fp_link) ''code'' world0))
       = [alice, bob\<lparr>google_id := JString ''g9''\<rparr>]
   \<and> google_id (bob\<lparr>google_id := JString ''g9''\<rparr>) \<noteq> google_id bob"
  by (simp add: eval_google_clash) (simp add: bob_def world0_def gp_clash_def)

text \<open>
  C4, amended. A run of a sign-in flow changes stored accounts only when it resolves by
  email: then the rows bearing the id of the account found become that account with its
  external id for the signing-in provider set to the profile's, whatever value was
  stored there before, and all other rows stay as they are. A run that finds no account
  by email (it matches by external id, creates an account, or fails on the way) leaves
  every row it started from, and so every stored external id, exactly as it was.
\<close>

theorem external_id_changes_only_on_email_match:
  "(stored (rows w) \<and> getOauth2 en code = Inr tok \<and> userinfo_get en tok = Inr p
    \<longrightarrow> (\<forall>a. find (\<lambda>r. email r = g_email p) (rows w) = Some a
            \<longrightarrow> rows (snd (signInWithGoogle en code w))
                = map (\<lambda>r. if user_id r = user_id a then a\<lparr>google_id := g_id p\<rparr> else r) (rows w))
      \<and> (find (\<lambda>r. email r = g_email p) (rows w) = None
            \<longrightarrow> take (length (rows w)) (rows (snd (signInWithGoogle en code w))) = rows w))
 \<and> (stored (rows w) \<and> facebook_api en token = Inr q
    \<longrightarrow> (\<forall>a. find (\<lambda>r. email r = fb_email q) (rows w) = Some a
            \<longrightarrow> rows (snd (signInWithFacebook en token w))
                = map (\<lambda>r. if user_id r = user_id a then a\<lparr>facebook_id := fb_id q\<rparr> else r) (rows w))
      \<and> (find (\<lambda>r. email r = fb_email q) (rows w) = None
            \<longrightarrow> take (length (rows w)) (rows (snd (signInWithFacebook en token w))) = rows w))"
proof (intro conjI impI allI)
  assume h: "stored (rows w) \<and> getOauth2 en code = Inr tok \<and> userinfo_get en tok = Inr p"
  { fix a assume f: "find (\<lambda>r. email r = g_email p) (rows w) = Some a"
    have "a \<in> set (rows w)" using find_SomeD [OF f] by simp
    then have old: "\<not> isNew (a\<lparr>google_id := g_id p\<rparr>)"
      using h stored_not_new [of "rows w" a] by (simp add: isNew_def)
    show "rows (snd (signInWithGoogle en code w))
        = map (\<lambda>r. if user_id r = user_id a then a\<lparr>google_id := g_id p\<rparr> else r) (rows w)"
      using h f by (simp add: google_by_email user_save_existing [OF old]) }
  { assume n: "find (\<lambda>r. email r = g_email p) (rows w) = None"
    show "take (length (rows w)) (rows (snd (signInWithGoogle en code w))) = rows w"
    proof (cases "find (\<lambda>r. google_id r = g_id p) (rows w)")
      case (Some b)
      then show ?thesis using h n by (simp add: google_by_id)
    next
      case None
      let ?w2 = "emit (Find ''google_id'' (g_id p)) (emit (Find ''email'' (g_email p)) w)"
      have "take (length (rows ?w2))
          (rows (snd (create_with_avatar en (google_account (now en) p) (g_picture p) ?w2)))
          = rows ?w2"
        by (rule create_rows_prefix) simp
      then show ?thesis using h n None by (simp add: google_create)
    qed }
next
  assume h: "stored (rows w) \<and> facebook_api en token = Inr q"
  { fix a assume f: "find (\<lambda>r. email r = fb_email q) (rows w) = Some a"
    have "a \<in> set (rows w)" using find_SomeD [OF f] by simp
    then have old: "\<not> isNew (a\<lparr>facebook_id := fb_id q\<rparr>)"
      using h stored_not_new [of "rows w" a] by (simp add: isNew_def)
    show "rows (snd (signInWithFacebook en token w))
        = map (\<lambda>r. if user_id r = user_id a then a\<lparr>facebook_id := fb_id q\<rparr> else r) (rows w)"
      using h f by (simp add: facebook_by_email user_save_existing [OF old]) }
  { assume n: "find (\<lambda>r. email r = fb_email q) (rows w) = None"
    show "take (length (rows w)) (rows (snd (signInWithFacebook en token w))) = rows w"
    proof (cases "find (\<lambda>r. facebook_id r = fb_id q) (rows w)")
      case (Some b)
      then show ?thesis using h n by (simp add: facebook_by_id)
    next
      case None
      let ?w2 = "emit (Find ''facebook_id'' (fb_id q)) (emit (Find ''email'' (fb_email q)) w)"
      have "take (length (rows ?w2))
          (rows (snd (create_with_avatar en (facebook_account (now en) q) pic ?w2)))
          = rows ?w2" for pic
        by (rule create_rows_prefix) simp
      then show ?thesis using h n None
        by (cases "fb_picture q") (simp_all add: facebook_create)
    qed }
qed

theorem external_id_changes_only_on_email_match_witness:
  "rows (snd (signInWithGoogle (env_of gp_clash fp_known) ''code'' world0))
     = [alice, bob\<lparr>google_id := JString ''g9''\<rparr>]
   \<and> take 2 (rows (snd (signInWithFacebook (env_of gp_clash fp_known) ''token'' world_fb)))
     = [alice, carol]"
proof -
  let ?E = "env_of gp_clash fp_known"
  have hg: "stored (rows world0) \<and> getOauth2 ?E ''code'' = Inr ''token-code''
      \<and> userinfo_get ?E ''token-code'' = Inr gp_clash"
    by (simp add: stored_def env_of_def world0_def alice_def bob_def)
  have hf: "stored (rows world_fb) \<and> facebook_api ?E ''token'' = Inr fp_known"
    by (simp add: stored_def env_of_def world_fb_def alice_def carol_def)
  have fg: "find (\<lambda>r. email r = g_email gp_clash) (rows world0) = Some bob"
    by (simp add: world0_def alice_def bob_def gp_clash_def)
  have ff: "find (\<lambda>r. email r = fb_email fp_known) (rows world_fb) = None"
    by (simp add: world_fb_def alice_def carol_def fp_known_def)
  note G = external_id_changes_only_on_email_match
      [where en = ?E and code = "''code''" and tok = "''token-code''" and p = gp_clash
         and w = world0, THEN conjunct1, rule_format, OF hg, THEN conjunct1, rule_format, OF fg]
  note F = external_id_changes_only_on_email_match
      [where en = ?E and token = "''token''" and q = fp_known
         and w = world_fb, THEN conjunct2, rule_format, OF hf, THEN conjunct2, rule_format, OF ff]
  have g: "rows (snd (signInWithGoogle ?E ''code'' world0)) = [alice, bob\<lparr>google_id := JString ''g9''\<rparr>]"
    using G by (simp add: world0_def alice_def bob_def gp_clash_def)
  have f: "take 2 (rows (snd (signInWithFacebook ?E ''token'' world_fb))) = [alice, carol]"
    using F by (simp add: world_fb_def numeral_2_eq_2)
  from g f show ?thesis by (rule conjI)
qed

text \<open>
  C5. When no stored account has the profile's email and the lookup by the provider's
  external id finds account \<open>b\<close>, the sign-in returns \<open>b\<close> as it was found and mutates
  nothing: the rows are the same, and the trace grows by the two lookups only, with no
  \<open>Save\<close>. This holds for the Google flow and for the Facebook flow.
\<close>

theorem signIn_by_external_id_no_mutation:
  "(getOauth2 en code = Inr tok \<and> userinfo_get en tok = Inr p
      \<and> find (\<lambda>r. email r = g_email p) (rows w) = None
      \<and> find (\<lambda>r. google_id r = g_id p) (rows w) = Some b
    \<longrightarrow> fst (signInWithGoogle en code w) = Inr b
      \<and> b \<in> set (rows w)
      \<and> rows (snd (signInWithGoogle en code w)) = rows w
      \<and> trace (snd (signInWithGoogle en code w))
          = trace w @ [Find ''email'' (g_email p), Find ''google_id'' (g_id p)])
 \<and> (facebook_api en token = Inr q
      \<and> find (\<lambda>r. email r = fb_email q) (rows w) = None
      \<and> find (\<lambda>r. facebook_id r = fb_id q) (rows w) = Some c
    \<longrightarrow> fst (signInWithFacebook en token w) = Inr c
      \<and> c \<in> set (rows w)
      \<and> rows (snd (signInWithFacebook en token w)) = rows w
      \<and> trace (snd (signInWithFacebook en token w))
          = trace w @ [Find ''email'' (fb_email q), Find ''facebook_id'' (fb_id q)])"
proof (intro conjI impI)
  assume h: "getOauth2 en code = Inr tok \<and> userinfo_get en tok = Inr p
      \<and> find (\<lambda>r. email r = g_email p) (rows w) = None
      \<and> find (\<lambda>r. google_id r = g_id p) (rows w) = Some b"
  then have run: "signInWithGoogle en code w
      = (Inr b, emit (Find ''google_id'' (g_id p)) (emit (Find ''email'' (g_email p)) w))"
    by (simp add: google_by_id)
  show "fst (signInWithGoogle en code w) = Inr b" by (simp add: run)
  show "b \<in> set (rows w)" using h find_SomeD by fastforce
  show "rows (snd (signInWithGoogle en code w)) = rows w" by (simp add: run)
  show "trace (snd (signInWithGoogle en code w))
      = trace w @ [Find ''email'' (g_email p), Find ''google_id'' (g_id p)]"
    by (simp add: run)
next
  assume h: "facebook_api en token = Inr q
      \<and> find (\<lambda>r. email r = fb_email q) (rows w) = None
      \<and> find (\<lambda>r. facebook_id r = fb_id q) (rows w) = Some c"
  then have run: "signInWithFacebook en token w
      = (Inr c, emit (Find ''facebook_id'' (fb_id q)) (emit (Find ''email'' (fb_email q)) w))"
    by (simp add: facebook_by_id)
  show "fst (signInWithFacebook en token w) = Inr c" by (simp add: run)
  show "c \<in> set (rows w)" using h find_SomeD by fastforce
  show "rows (snd (signInWithFacebook en token w)) = rows w" by (simp add: run)
  show "trace (snd (signInWithFacebook en token w))
      = trace w @ [Find ''email'' (fb_email q), Find ''facebook_id'' (fb_id q)]"
    by (simp add: run)
qed

theorem signIn_by_external_id_no_mutation_witness:
  "signInWithGoogle (env_of gp_known fp_known) ''code'' world0
     = (Inr bob, \<lparr> rows = [alice, bob],
                   trace = [Find ''email'' (JString ''bob@new.com''),
                            Find ''google_id'' (JString ''g7'')] \<rparr>)
   \<and> signInWithFacebook (env_of gp_known fp_known) ''token'' world_fb
     = (Inr carol, \<lparr> rows = [alice, carol],
                     trace = [Find ''email'' (JString ''carol@new.com''),
                              Find ''facebook_id'' (JString ''f5'')] \<rparr>)"
proof -
  let ?E = "env_of gp_known fp_known"
  have hg: "getOauth2 ?E ''code'' = Inr ''token-code'' \<and> userinfo_get ?E ''token-code'' = Inr gp_known
      \<and> find (\<lambda>r. email r = g_email gp_known) (rows world0) = None
      \<and> find (\<lambda>r. google_id r = g_id gp_known) (rows world0) = Some bob"
    by (simp add: env_of_def world0_def alice_def bob_def gp_known_def)
  have hf: "facebook_api ?E ''token'' = Inr fp_known
      \<and> find (\<lambda>r. email r = fb_email fp_known) (rows world_fb) = None
      \<and> find (\<lambda>r. facebook_id r = fb_id fp_known) (rows world_fb) = Some carol"
    by (simp add: env_of_def world_fb_def alice_def carol_def fp_known_def)
  note G = signIn_by_external_id_no_mutation
      [where en = ?E and code = "''code''" and tok = "''token-code''" and p = gp_known
         and w = world0 and b = bob, THEN conjunct1, rule_format, OF hg]
  note F = signIn_by_external_id_no_mutation
      [where en = ?E and token = "''token''" and q = fp_known
         and w = world_fb and c = carol, THEN conjunct2, rule_format, OF hf]
  have g: "signInWithGoogle ?E ''code'' world0
     = (Inr bob, \<lparr> rows = [alice, bob],
                   trace = [Find ''email'' (JString ''bob@new.com''),
                            Find ''google_id'' (JString ''g7'')] \<rparr>)"
    using G by (intro result_eqI) (simp_all add: world0_def gp_known_def)
  have f: "signInWithFacebook ?E ''token'' world_fb
     = (Inr carol, \<lparr> rows = [alice, carol],
                     trace = [Find ''email'' (JString ''carol@new.com''),
                              Find ''facebook_id'' (JString ''f5'')] \<rparr>)"
    using F by (intro result_eqI) (simp_all add: world_fb_def fp_known_def)
  from g f show ?thesis by (rule conjI)
qed

text \<open>
  C6. Signing in twice in a row with the same provider and the same profile gives the
  same account the second time: if the first call, on a store whose rows all carry
  their ids, returns the account \<open>u\<close> and leaves the world \<open>w1\<close>, then the second call,
  run on \<open>w1\<close>, returns \<open>u\<close> as well and leaves the rows of \<open>w1\<close> as they are, so no
  account is added and none is altered. (On an email match the second call does issue
  a save; it writes the values the row already holds.)
\<close>

theorem signIn_twice_same_account:
  "(stored (rows w) \<and> signInWithGoogle en code w = (Inr u, w1)
    \<longrightarrow> fst (signInWithGoogle en code w1) = Inr u
      \<and> rows (snd (signInWithGoogle en code w1)) = rows w1)
 \<and> (stored (rows w) \<and> signInWithFacebook en token w = (Inr v, w2)
    \<longrightarrow> fst (signInWithFacebook en token w2) = Inr v
      \<and> rows (snd (signInWithFacebook en token w2)) = rows w2)"
  using google_idempotent [of w en code u w1] facebook_idempotent [of w en token v w2]
  by blast

theorem signIn_twice_same_account_witness:
  "fst (signInWithGoogle (env_of gp_new fp_new) ''code''
          \<lparr> rows = [alice, bob, newcomer_g],
            trace = [Find ''email'' (JString ''new@x.com''), Find ''google_id'' (JString ''g2''),
                     Download (JString ''http://img''),
                     Upload (google_account 5000 gp_new) ''/tmp/avatar'', Save newcomer_g] \<rparr>)
     = Inr newcomer_g
   \<and> rows (snd (signInWithGoogle (env_of gp_new fp_new) ''code''
          \<lparr> rows = [alice, bob, newcomer_g],
            trace = [Find ''email'' (JString ''new@x.com''), Find ''google_id'' (JString ''g2''),
                     Download (JString ''http://img''),
                     Upload (google_account 5000 gp_new) ''/tmp/avatar'', Save newcomer_g] \<rparr>))
     = [alice, bob, newcomer_g]
   \<and> fst (signInWithFacebook (env_of gp_link fp_link) ''token''
          \<lparr> rows = [alice\<lparr>facebook_id := JString ''f1''\<rparr>, carol],
            trace = [Find ''email'' (JString ''a@x.com''),
                     Save (alice\<lparr>facebook_id := JString ''f1''\<rparr>)] \<rparr>)
     = Inr (alice\<lparr>facebook_id := JString ''f1''\<rparr>)
   \<and> rows (snd (signInWithFacebook (env_of gp_link fp_link) ''token''
          \<lparr> rows = [alice\<lparr>facebook_id := JString ''f1''\<rparr>, carol],
            trace = [Find ''email'' (JString ''a@x.com''),
                     Save (alice\<lparr>facebook_id := JString ''f1''\<rparr>)] \<rparr>))
     = [alice\<lparr>facebook_id := JString ''f1''\<rparr>, carol]"
proof -
  have s0: "stored (rows world0)"
    by (simp add: stored_def world0_def alice_def bob_def)
  have s1: "stored (rows world_fb)"
    by (simp add: stored_def world_fb_def alice_def carol_def)
  note G = signIn_twice_same_account
      [THEN conjunct1, rule_format, OF conjI [OF s0 eval_google_new]]
  note F = signIn_twice_same_account
      [THEN conjunct2, rule_format, OF conjI [OF s1 eval_facebook_link]]
  show ?thesis using G F by simp
qed

section \<open>Claims about the account edit service\<close>

text \<open>
  C7. \<open>updateUser\<close> validates the merged account before it persists anything. Let \<open>m\<close>
  be the stored account \<open>u\<close> with the allow-listed entries of the patch applied. A
  required field is missing when the code's test \<open>!v || _.isEmpty(v)\<close> holds of it, and
  an absent (\<open>undefined\<close>, \<open>null\<close>) or empty value is missing. If the first name of \<open>m\<close>
  is missing the call raises \<open>first_name_required\<close>; otherwise, if the last name is
  missing, \<open>last_name_required\<close>; otherwise, if the email is missing, \<open>email_required\<close>.
  In each case the world the call leaves behind is the one after the lookup of the
  account: the rows are untouched and the trace holds the \<open>Get\<close> and no \<open>Save\<close>. In
  particular the patch \<open>{first_name: ""}\<close> fails with the first-name error.
\<close>

theorem updateUser_validates_before_save:
  assumes "find (\<lambda>r. user_id r = user_id usr) (rows w) = Some u"
    and "m = user_set (pick d ALLOWED_ATTRS_TO_UPDATE) u"
    and "w1 = emit (Get (user_id usr)) w"
  shows "(missing JUndefined \<and> missing JNull \<and> missing (JString ''''))
       \<and> (missing (first_name m) \<longrightarrow>
            updateUser usr d w = (Inl (ApiError ''first_name_required'' ''First name required''), w1))
       \<and> (\<not> missing (first_name m) \<and> missing (last_name m) \<longrightarrow>
            updateUser usr d w = (Inl (ApiError ''last_name_required'' ''Last name required''), w1))
       \<and> (\<not> missing (first_name m) \<and> \<not> missing (last_name m) \<and> missing (email m) \<longrightarrow>
            updateUser usr d w = (Inl (ApiError ''email_required'' ''Email required''), w1))
       \<and> (d = [''first_name'' \<mapsto> JString ''''] \<longrightarrow>
            updateUser usr d w = (Inl (ApiError ''first_name_required'' ''First name required''), w1))
       \<and> rows w1 = rows w \<and> trace w1 = trace w @ [Get (user_id usr)]"
proof -
  have g: "queries_get (user_id usr) w = (Inr u, w1)"
    using assms(1,3) by (simp add: queries_get_found)
  have run: "updateUser usr d w =
      (case validateUser m of Inl e \<Rightarrow> (Inl e, w1) | Inr x \<Rightarrow> user_save m w1)"
    unfolding assms(2) using g by (simp add: updateUser_def Let_def)
  have blank: "missing JUndefined \<and> missing JNull \<and> missing (JString '''')"
    by (simp add: missing_def)
  have f: "missing (first_name m) \<longrightarrow>
      updateUser usr d w = (Inl (ApiError ''first_name_required'' ''First name required''), w1)"
    by (simp add: run validateUser_def)
  have l: "\<not> missing (first_name m) \<and> missing (last_name m) \<longrightarrow>
      updateUser usr d w = (Inl (ApiError ''last_name_required'' ''Last name required''), w1)"
    by (simp add: run validateUser_def)
  have e: "\<not> missing (first_name m) \<and> \<not> missing (last_name m) \<and> missing (email m) \<longrightarrow>
      updateUser usr d w = (Inl (ApiError ''email_required'' ''Email required''), w1)"
    by (simp add: run validateUser_def)
  have only: "d = [''first_name'' \<mapsto> JString ''''] \<longrightarrow>
      updateUser usr d w = (Inl (ApiError ''first_name_required'' ''First name required''), w1)"
  proof
    assume d: "d = [''first_name'' \<mapsto> JString '''']"
    have "first_name m = JString ''''"
      by (simp add: assms(2) d pick_allowed_user_set assign_def)
    then have "missing (first_name m)" by (simp add: missing_def)
    with f show "updateUser usr d w = (Inl (ApiError ''first_name_required'' ''First name required''), w1)"
      by simp
  qed
  have frame: "rows w1 = rows w \<and> trace w1 = trace w @ [Get (user_id usr)]"
    by (simp add: assms(3) emit_def)
  from blank f l e only frame show ?thesis by blast
qed

theorem updateUser_validates_before_save_witness:
  "updateUser alice [''first_name'' \<mapsto> JString ''''] world0
     = (Inl (ApiError ''first_name_required'' ''First name required''),
        \<lparr> rows = [alice, bob], trace = [Get (JNumber 1)] \<rparr>)
   \<and> updateUser bob [''last_name'' \<mapsto> JNull, ''email'' \<mapsto> JString ''''] world0
     = (Inl (ApiError ''last_name_required'' ''Last name required''),
        \<lparr> rows = [alice, bob], trace = [Get (JNumber 2)] \<rparr>)"
proof -
  have a: "find (\<lambda>r. user_id r = user_id alice) (rows world0) = Some alice"
    by (simp add: world0_def alice_def)
  have b: "find (\<lambda>r. user_id r = user_id bob) (rows world0) = Some bob"
    by (simp add: world0_def alice_def bob_def)
  have wa: "emit (Get (user_id alice)) world0 = \<lparr> rows = [alice, bob], trace = [Get (JNumber 1)] \<rparr>"
    by (simp add: emit_def world0_def alice_def)
  have wb: "emit (Get (user_id bob)) world0 = \<lparr> rows = [alice, bob], trace = [Get (JNumber 2)] \<rparr>"
    by (simp add: emit_def world0_def bob_def)
  have mb: "\<not> missing (first_name (user_set (pick [''last_name'' \<mapsto> JNull, ''email'' \<mapsto> JString ''''] ALLOWED_ATTRS_TO_UPDATE) bob))
     \<and> missing (last_name (user_set (pick [''last_name'' \<mapsto> JNull, ''email'' \<mapsto> JString ''''] ALLOWED_ATTRS_TO_UPDATE) bob))"
    by (simp add: pick_allowed_user_set assign_def bob_def missing_def)
  show ?thesis
    using updateUser_validates_before_save [OF a refl refl, of "[''first_name'' \<mapsto> JString '''']"]
      updateUser_validates_before_save [OF b refl refl, of "[''last_name'' \<mapsto> JNull, ''email'' \<mapsto> JString '''']"]
      mb
    by (simp add: wa wb)
qed

text \<open>
  C8. \<open>updateUser\<close> applies only the allow-listed attributes of the patch. Let \<open>u\<close> be the
  stored account and \<open>m\<close> the merged one. When \<open>m\<close> passes validation the call succeeds
  and returns \<open>m\<close>, which is \<open>u\<close> with its first name, last name and email taken from the
  patch where the patch has them; its id, avatar URL, external ids and registration date
  are those of \<open>u\<close> whatever the patch holds under those or any other keys. The row of
  that id is replaced by \<open>m\<close> and no other row changes. Any patch that agrees with this
  one on the three allow-listed keys gives the same run.
\<close>

theorem updateUser_applies_only_allowed:
  assumes "stored (rows w)"
    and "find (\<lambda>r. user_id r = user_id usr) (rows w) = Some u"
    and "m = user_set (pick d ALLOWED_ATTRS_TO_UPDATE) u"
    and "validateUser m = Inr ()"
  shows "fst (updateUser usr d w) = Inr m
       \<and> rows (snd (updateUser usr d w)) = map (\<lambda>r. if user_id r = user_id u then m else r) (rows w)
       \<and> trace (snd (updateUser usr d w)) = trace w @ [Get (user_id usr), Save m]
       \<and> m = u\<lparr> first_name := assign (d ''first_name'') (first_name u),
                last_name := assign (d ''last_name'') (last_name u),
                email := assign (d ''email'') (email u) \<rparr>
       \<and> user_id m = user_id u \<and> image_url m = image_url u \<and> google_id m = google_id u
       \<and> facebook_id m = facebook_id u \<and> registration_date m = registration_date u
       \<and> (\<forall>d'. d' ''first_name'' = d ''first_name'' \<and> d' ''last_name'' = d ''last_name''
               \<and> d' ''email'' = d ''email'' \<longrightarrow> updateUser usr d' w = updateUser usr d w)"
proof -
  have m: "m = u\<lparr> first_name := assign (d ''first_name'') (first_name u),
                  last_name := assign (d ''last_name'') (last_name u),
                  email := assign (d ''email'') (email u) \<rparr>"
    by (simp add: assms(3) pick_allowed_user_set)
  have uin: "u \<in> set (rows w)" and uid: "user_id u = user_id usr"
    using find_SomeD [OF assms(2)] by simp_all
  have idm: "user_id m = user_id u" by (simp add: m)
  have old: "\<not> isNew m"
    using stored_not_new [OF assms(1) uin] idm by (simp add: isNew_def)
  have g: "queries_get (user_id usr) w = (Inr u, emit (Get (user_id usr)) w)"
    using assms(2) by (rule queries_get_found)
  have run: "updateUser usr d w = user_save m (emit (Get (user_id usr)) w)"
    unfolding assms(3) using g assms(4) [unfolded assms(3)]
    by (simp add: updateUser_def Let_def)
  have res: "fst (updateUser usr d w) = Inr m"
    by (simp add: run user_save_existing [OF old])
  have rws: "rows (snd (updateUser usr d w))
      = map (\<lambda>r. if user_id r = user_id u then m else r) (rows w)"
    by (simp add: run user_save_existing [OF old] emit_def idm)
  have trc: "trace (snd (updateUser usr d w)) = trace w @ [Get (user_id usr), Save m]"
    by (simp add: run user_save_existing [OF old] emit_def)
  have frame: "user_id m = user_id u \<and> image_url m = image_url u \<and> google_id m = google_id u
       \<and> facebook_id m = facebook_id u \<and> registration_date m = registration_date u"
    by (simp add: m)
  have others: "\<forall>d'. d' ''first_name'' = d ''first_name'' \<and> d' ''last_name'' = d ''last_name''
               \<and> d' ''email'' = d ''email'' \<longrightarrow> updateUser usr d' w = updateUser usr d w"
  proof (intro allI impI)
    fix d' :: attrs
    assume h: "d' ''first_name'' = d ''first_name'' \<and> d' ''last_name'' = d ''last_name''
               \<and> d' ''email'' = d ''email''"
    have "pick d' ALLOWED_ATTRS_TO_UPDATE = pick d ALLOWED_ATTRS_TO_UPDATE"
      by (rule pick_cong_allowed) (simp_all add: h)
    then show "updateUser usr d' w = updateUser usr d w"
      unfolding updateUser_def by (simp only:)
  qed
  show ?thesis
    by (intro conjI res rws trc m others frame [THEN conjunct1]
          frame [THEN conjunct2, THEN conjunct1]
          frame [THEN conjunct2, THEN conjunct2, THEN conjunct1]
          frame [THEN conjunct2, THEN conjunct2, THEN conjunct2, THEN conjunct1]
          frame [THEN conjunct2, THEN conjunct2, THEN conjunct2, THEN conjunct2])
qed

theorem updateUser_applies_only_allowed_witness:
  "updateUser alice [''role'' \<mapsto> JString ''admin'', ''google_id'' \<mapsto> JString ''g666'',
                     ''first_name'' \<mapsto> JString ''Alicia''] world0
   = (Inr (alice\<lparr>first_name := JString ''Alicia''\<rparr>),
      \<lparr> rows = [alice\<lparr>first_name := JString ''Alicia''\<rparr>, bob],
        trace = [Get (JNumber 1), Save (alice\<lparr>first_name := JString ''Alicia''\<rparr>)] \<rparr>)"
proof -
  let ?d = "[''role'' \<mapsto> JString ''admin'', ''google_id'' \<mapsto> JString ''g666'',
             ''first_name'' \<mapsto> JString ''Alicia'']"
  let ?m = "alice\<lparr>first_name := JString ''Alicia''\<rparr>"
  let ?X = "updateUser alice ?d world0"
  have s: "stored (rows world0)"
    by (simp add: stored_def world0_def alice_def bob_def)
  have a: "find (\<lambda>r. user_id r = user_id alice) (rows world0) = Some alice"
    by (simp add: world0_def alice_def)
  have m: "user_set (pick ?d ALLOWED_ATTRS_TO_UPDATE) alice = ?m"
    by (simp add: pick_allowed_user_set assign_def)
  have v: "validateUser (user_set (pick ?d ALLOWED_ATTRS_TO_UPDATE) alice) = Inr ()"
    unfolding m by (simp add: validateUser_def missing_def alice_def)
  note T = updateUser_applies_only_allowed [OF s a refl v, unfolded m]
  have r1: "fst ?X = Inr ?m"
    by (rule T [THEN conjunct1])
  have r2: "rows (snd ?X) = map (\<lambda>r. if user_id r = user_id alice then ?m else r) (rows world0)"
    by (rule T [THEN conjunct2, THEN conjunct1])
  have r3: "trace (snd ?X) = trace world0 @ [Get (user_id alice), Save ?m]"
    by (rule T [THEN conjunct2, THEN conjunct2, THEN conjunct1])
  have e2: "map (\<lambda>r. if user_id r = user_id alice then ?m else r) (rows world0) = [?m, bob]"
    by (simp add: world0_def alice_def bob_def)
  have e3: "trace world0 @ [Get (user_id alice), Save ?m] = [Get (JNumber 1), Save ?m]"
    by (simp add: world0_def alice_def)
  have w: "snd ?X = \<lparr> rows = [?m, bob], trace = [Get (JNumber 1), Save ?m] \<rparr>"
    using r2 r3 unfolding e2 e3 by (intro world.equality) simp_all
  show ?thesis
    using r1 w by (simp add: prod_eq_iff)
qed

section \<open>Further claims about social sign-in\<close>

text \<open>
  C9. When a sign-in resolves by email to the stored account \<open>a\<close>, the call succeeds
  and the account returned and stored is \<open>a\<close> with the external id of the signing-in
  provider set to the profile's: its id, first name, last name, email, avatar URL, registration date and the
  other provider's external id are those of \<open>a\<close>, whatever names and picture the profile
  carries. Every row of another id is left as it was, and no row is added.
\<close>

theorem signIn_by_email_links_only:
  "(stored (rows w) \<and> getOauth2 en code = Inr tok \<and> userinfo_get en tok = Inr p
      \<and> find (\<lambda>r. email r = g_email p) (rows w) = Some a
      \<and> a' = a\<lparr>google_id := g_id p\<rparr>
    \<longrightarrow> fst (signInWithGoogle en code w) = Inr a'
      \<and> user_id a' = user_id a \<and> first_name a' = first_name a \<and> last_name a' = last_name a
      \<and> email a' = email a \<and> image_url a' = image_url a
      \<and> registration_date a' = registration_date a \<and> facebook_id a' = facebook_id a
      \<and> rows (snd (signInWithGoogle en code w))
          = map (\<lambda>r. if user_id r = user_id a then a' else r) (rows w))
 \<and> (stored (rows w) \<and> facebook_api en token = Inr q
      \<and> find (\<lambda>r. email r = fb_email q) (rows w) = Some c
      \<and> c' = c\<lparr>facebook_id := fb_id q\<rparr>
    \<longrightarrow> fst (signInWithFacebook en token w) = Inr c'
      \<and> user_id c' = user_id c \<and> first_name c' = first_name c \<and> last_name c' = last_name c
      \<and> email c' = email c \<and> image_url c' = image_url c
      \<and> registration_date c' = registration_date c \<and> google_id c' = google_id c
      \<and> rows (snd (signInWithFacebook en token w))
          = map (\<lambda>r. if user_id r = user_id c then c' else r) (rows w))"
proof (intro conjI impI)
  assume h: "stored (rows w) \<and> getOauth2 en code = Inr tok \<and> userinfo_get en tok = Inr p
      \<and> find (\<lambda>r. email r = g_email p) (rows w) = Some a
      \<and> a' = a\<lparr>google_id := g_id p\<rparr>"
  then have "a \<in> set (rows w)" using find_SomeD by fastforce
  with h have old: "\<not> isNew (a\<lparr>google_id := g_id p\<rparr>)"
    using stored_not_new [of "rows w" a] by (simp add: isNew_def)
  have run: "signInWithGoogle en code w
      = user_save (a\<lparr>google_id := g_id p\<rparr>) (emit (Find ''email'' (g_email p)) w)"
    using h by (simp add: google_by_email)
  from h have a': "a' = a\<lparr>google_id := g_id p\<rparr>" by simp
  show "fst (signInWithGoogle en code w) = Inr a'"
    by (simp add: run user_save_existing [OF old] a')
  show "user_id a' = user_id a" "first_name a' = first_name a" "last_name a' = last_name a"
    "email a' = email a" "image_url a' = image_url a"
    "registration_date a' = registration_date a" "facebook_id a' = facebook_id a"
    by (simp_all add: a')
  show "rows (snd (signInWithGoogle en code w))
      = map (\<lambda>r. if user_id r = user_id a then a' else r) (rows w)"
    by (simp add: run user_save_existing [OF old] a')
next
  assume h: "stored (rows w) \<and> facebook_api en token = Inr q
      \<and> find (\<lambda>r. email r = fb_email q) (rows w) = Some c
      \<and> c' = c\<lparr>facebook_id := fb_id q\<rparr>"
  then have "c \<in> set (rows w)" using find_SomeD by fastforce
  with h have old: "\<not> isNew (c\<lparr>facebook_id := fb_id q\<rparr>)"
    using stored_not_new [of "rows w" c] by (simp add: isNew_def)
  have run: "signInWithFacebook en token w
      = user_save (c\<lparr>facebook_id := fb_id q\<rparr>) (emit (Find ''email'' (fb_email q)) w)"
    using h by (simp add: facebook_by_email)
  from h have c': "c' = c\<lparr>facebook_id := fb_id q\<rparr>" by simp
  show "fst (signInWithFacebook en token w) = Inr c'"
    by (simp add: run user_save_existing [OF old] c')
  show "user_id c' = user_id c" "first_name c' = first_name c" "last_name c' = last_name c"
    "email c' = email c" "image_url c' = image_url c"
    "registration_date c' = registration_date c" "google_id c' = google_id c"
    by (simp_all add: c')
  show "rows (snd (signInWithFacebook en token w))
      = map (\<lambda>r. if user_id r = user_id c then c' else r) (rows w)"
    by (simp add: run user_save_existing [OF old] c')
qed

theorem signIn_by_email_links_only_witness:
  "fst (signInWithGoogle (env_of gp_link fp_link) ''code'' world0)
     = Inr (alice\<lparr>google_id := JString ''g1''\<rparr>)
   \<and> rows (snd (signInWithGoogle (env_of gp_link fp_link) ''code'' world0))
     = [alice\<lparr>google_id := JString ''g1''\<rparr>, bob]
   \<and> first_name (alice\<lparr>google_id := JString ''g1''\<rparr>) = JString ''Alice''
   \<and> fst (signInWithFacebook (env_of gp_link fp_link) ''token'' world_fb)
     = Inr (alice\<lparr>facebook_id := JString ''f1''\<rparr>)
   \<and> rows (snd (signInWithFacebook (env_of gp_link fp_link) ''token'' world_fb))
     = [alice\<lparr>facebook_id := JString ''f1''\<rparr>, carol]"
proof -
  let ?E = "env_of gp_link fp_link"
  have hg: "stored (rows world0) \<and> getOauth2 ?E ''code'' = Inr ''token-code''
      \<and> userinfo_get ?E ''token-code'' = Inr gp_link
      \<and> find (\<lambda>r. email r = g_email gp_link) (rows world0) = Some alice
      \<and> alice\<lparr>google_id := JString ''g1''\<rparr> = alice\<lparr>google_id := g_id gp_link\<rparr>"
    by (simp add: stored_def env_of_def world0_def alice_def bob_def gp_link_def)
  have hf: "stored (rows world_fb) \<and> facebook_api ?E ''token'' = Inr fp_link
      \<and> find (\<lambda>r. email r = fb_email fp_link) (rows world_fb) = Some alice
      \<and> alice\<lparr>facebook_id := JString ''f1''\<rparr> = alice\<lparr>facebook_id := fb_id fp_link\<rparr>"
    by (simp add: stored_def env_of_def world_fb_def alice_def carol_def fp_link_def)
  note G = signIn_by_email_links_only
      [where en = ?E and code = "''code''" and tok = "''token-code''" and p = gp_link
         and w = world0 and a = alice and a' = "alice\<lparr>google_id := JString ''g1''\<rparr>",
       THEN conjunct1, rule_format, OF hg]
  note F = signIn_by_email_links_only
      [where en = ?E and token = "''token''" and q = fp_link
         and w = world_fb and c = alice and c' = "alice\<lparr>facebook_id := JString ''f1''\<rparr>",
       THEN conjunct2, rule_format, OF hf]
  have g1: "fst (signInWithGoogle ?E ''code'' world0) = Inr (alice\<lparr>google_id := JString ''g1''\<rparr>)"
    using G by blast
  have g2: "rows (snd (signInWithGoogle ?E ''code'' world0)) = [alice\<lparr>google_id := JString ''g1''\<rparr>, bob]"
    using G by (simp add: world0_def alice_def bob_def)
  have g3: "first_name (alice\<lparr>google_id := JString ''g1''\<rparr>) = JString ''Alice''"
    by (simp add: alice_def)
  have f1: "fst (signInWithFacebook ?E ''token'' world_fb) = Inr (alice\<lparr>facebook_id := JString ''f1''\<rparr>)"
    using F by blast
  have f2: "rows (snd (signInWithFacebook ?E ''token'' world_fb)) = [alice\<lparr>facebook_id := JString ''f1''\<rparr>, carol]"
    using F by (simp add: world_fb_def alice_def carol_def)
  from g1 g2 g3 f1 f2 show ?thesis by (intro conjI)
qed




end
